theory Spec2Isabelle
  imports Main "HOL-Library.AList"
begin

section \<open>The SFU control plane of EduHaven: Server/SFU/mediaRouter.js\<close>

text \<open>
  The file holds two modules: the class \<open>MediaRouter\<close> (the registries of routers,
  transports, producers, consumers and rooms) and \<open>handleSFUOperations\<close> (the
  Socket.IO event handlers of one socket). Both are embedded here as pure functions that
  take the state and return the new state together with the messages sent.

  What the code leaves to its libraries is an input of the model:
  \<^item> the media engine (mediasoup). Every call that goes to the engine
    (\<open>createRouter\<close>, \<open>createWebRtcTransport\<close>, \<open>connect\<close>, \<open>produce\<close>,
    \<open>canConsume\<close>, \<open>consume\<close>, \<open>resume\<close>, \<open>pause\<close>) takes its outcome as an
    argument: \<open>Inl msg\<close> when the engine throws \<open>Error(msg)\<close>, \<open>Inr v\<close> when it returns
    \<open>v\<close>. The \<open>close()\<close> calls of the engine return nothing and are taken not to throw.
    The opaque payloads handed through to the engine (\<open>dtlsParameters\<close>,
    \<open>rtpParameters\<close>, \<open>rtpCapabilities\<close>, ICE parameters) are left out.
  \<^item> Socket.IO. The model keeps which socket has joined which room;
    \<open>socket.join\<close>, \<open>socket.leave\<close>, \<open>socket.emit\<close> and
    \<open>socket.to(room).emit\<close> (every socket of the room but the sender) are modelled by
    their documented behaviour. What \<open>socket.rooms\<close> holds when the \<open>disconnect\<close>
    handler runs is an argument of that handler.
  Each handler is run to its end before the next event is handled (the interleaving of
  handlers at their \<open>await\<close>s is not modelled), and \<open>createdAt: new Date()\<close> of a
  room is left out.
\<close>

subsection \<open>JavaScript \<open>Map\<close> and \<open>Set\<close>\<close>

text \<open>
  A \<open>Map\<close> is an association list in insertion order: \<open>m.get(k)\<close> is \<open>map_of m k\<close>,
  \<open>m.set(k, v)\<close> is \<open>AList.update k v m\<close> (it overwrites in place or appends),
  \<open>m.delete(k)\<close> is \<open>AList.delete k m\<close>. The keys of a \<open>Map\<close> are distinct.
  A \<open>Set\<close> is a list without duplicates, in insertion order.
\<close>

type_synonym ('k, 'v) jsmap = "('k \<times> 'v) list"

definition map_has :: "('k, 'v) jsmap \<Rightarrow> 'k \<Rightarrow> bool" where
  "map_has m k = (map_of m k \<noteq> None)"

definition set_add :: "'a list \<Rightarrow> 'a \<Rightarrow> 'a list" where
  "set_add xs x = (if x \<in> set xs then xs else xs @ [x])"

definition set_delete :: "'a list \<Rightarrow> 'a \<Rightarrow> 'a list" where
  "set_delete xs x = removeAll x xs"

text \<open>
  The loop \<^verbatim>\<open>for (const [k, v] of m) { if (c(v)) { ...; m.delete(k); } }\<close>, which occurs
  three times in \<open>leavePeer\<close> and \<open>closeProducer\<close>: it walks the entries and deletes
  the current one when the condition holds. The first argument is the list of the
  entries still to visit.
\<close>

fun delete_matching :: "('v \<Rightarrow> bool) \<Rightarrow> ('k, 'v) jsmap \<Rightarrow> ('k, 'v) jsmap \<Rightarrow> ('k, 'v) jsmap" where
  "delete_matching c [] m = m"
| "delete_matching c ((k, v) # rest) m =
     delete_matching c rest (if c v then AList.delete k m else m)"

subsection \<open>The registries of \<open>MediaRouter\<close>\<close>

type_synonym 'a result = "string + 'a"

record transportInfo =
  t_peerId :: string
  t_roomId :: string
  t_direction :: string

record producerInfo =
  p_peerId :: string
  p_roomId :: string
  p_kind :: string

record consumerInfo =
  c_peerId :: string
  c_roomId :: string
  c_producerId :: string

record roomInfo =
  r_router :: nat
  r_peers :: "string list"

text \<open>
  A router is the handle the engine returned for it (a number here); its
  \<open>rtpCapabilities\<close> are read off the handle. \<open>listeners\<close> are the listeners of the
  \<open>newProducer\<close> event of the \<open>EventEmitter\<close> that \<open>MediaRouter\<close> extends: each is the
  id of the socket its closure holds. The map \<open>this.peers\<close> is never written and is left
  out.
\<close>

record mediaRouter =
  workers :: "nat list"
  routers :: "(string, nat) jsmap"
  transports :: "(string, transportInfo) jsmap"
  producers :: "(string, producerInfo) jsmap"
  consumers :: "(string, consumerInfo) jsmap"
  rooms :: "(string, roomInfo) jsmap"
  listeners :: "string list"

definition new_MediaRouter :: mediaRouter where
  "new_MediaRouter = \<lparr> workers = [], routers = [], transports = [], producers = [],
     consumers = [], rooms = [], listeners = [] \<rparr>"

definition initialize :: "mediaRouter \<Rightarrow> nat result \<Rightarrow> mediaRouter result" where
  "initialize m createWorker =
     (case createWorker of
        Inl e \<Rightarrow> Inl e
      | Inr worker \<Rightarrow> Inr (m\<lparr> workers := workers m @ [worker] \<rparr>))"

text \<open>
  \<open>this.workers[0]\<close> is \<open>undefined\<close> when no worker was created, and the call
  \<open>worker.createRouter\<close> then throws a \<open>TypeError\<close>.
\<close>

definition getOrCreateRouter :: "mediaRouter \<Rightarrow> string \<Rightarrow> nat result \<Rightarrow> (mediaRouter \<times> nat) result" where
  "getOrCreateRouter m roomId createRouter =
     (case map_of (routers m) roomId of
        Some router \<Rightarrow> Inr (m, router)
      | None \<Rightarrow>
          (case workers m of
             [] \<Rightarrow> Inl ''Cannot read properties of undefined (reading 'createRouter')''
           | worker # _ \<Rightarrow>
               (case createRouter of
                  Inl e \<Rightarrow> Inl e
                | Inr router \<Rightarrow>
                    Inr (m\<lparr> routers := AList.update roomId router (routers m),
                             rooms := AList.update roomId \<lparr> r_router = router, r_peers = [] \<rparr> (rooms m) \<rparr>,
                         router))))"

text \<open>
  A method that has changed a registry before it throws leaves the change behind (the
  \<open>catch\<close> blocks only log and rethrow). \<open>createWebRtcTransport\<close> and
  \<open>createConsumer\<close> can throw after \<open>getOrCreateRouter\<close> has created a router, so
  they return the registries together with the result.
\<close>

definition createWebRtcTransport ::
  "mediaRouter \<Rightarrow> string \<Rightarrow> string \<Rightarrow> string \<Rightarrow> nat result \<Rightarrow> string result \<Rightarrow> mediaRouter \<times> string result" where
  "createWebRtcTransport m roomId peerId direction createRouter createTransport =
     (case getOrCreateRouter m roomId createRouter of
        Inl e \<Rightarrow> (m, Inl e)
      | Inr (m1, router) \<Rightarrow>
          (case createTransport of
             Inl e \<Rightarrow> (m1, Inl e)
           | Inr transportId \<Rightarrow>
               (m1\<lparr> transports := AList.update transportId
                      \<lparr> t_peerId = peerId, t_roomId = roomId, t_direction = direction \<rparr>
                      (transports m1) \<rparr>,
                Inr transportId)))"

definition connectTransport :: "mediaRouter \<Rightarrow> string \<Rightarrow> unit result \<Rightarrow> unit result" where
  "connectTransport m transportId connect =
     (case map_of (transports m) transportId of
        None \<Rightarrow> Inl (''Transport '' @ transportId @ '' not found'')
      | Some transportInfo \<Rightarrow> connect)"

text \<open>The payload of the \<open>newProducer\<close> event: roomId, peerId, producerId, kind.\<close>

type_synonym newProducer = "string \<times> string \<times> string \<times> string"

definition createProducer ::
  "mediaRouter \<Rightarrow> string \<Rightarrow> string \<Rightarrow> string result \<Rightarrow> (mediaRouter \<times> string \<times> newProducer) result" where
  "createProducer m transportId kind produce =
     (case map_of (transports m) transportId of
        None \<Rightarrow> Inl (''Transport '' @ transportId @ '' not found'')
      | Some transportInfo \<Rightarrow>
          (case produce of
             Inl e \<Rightarrow> Inl e
           | Inr producerId \<Rightarrow>
               (let m1 = m\<lparr> producers := AList.update producerId
                              \<lparr> p_peerId = t_peerId transportInfo,
                                p_roomId = t_roomId transportInfo,
                                p_kind = kind \<rparr> (producers m) \<rparr>;
                    m2 = (case map_of (rooms m1) (t_roomId transportInfo) of
                            None \<Rightarrow> m1
                          | Some room \<Rightarrow>
                              m1\<lparr> rooms := AList.update (t_roomId transportInfo)
                                    (room\<lparr> r_peers := set_add (r_peers room) (t_peerId transportInfo) \<rparr>)
                                    (rooms m1) \<rparr>)
                in Inr (m2, producerId,
                        (t_roomId transportInfo, t_peerId transportInfo, producerId, kind)))))"

text \<open>
  The engine's answers to \<open>createConsumer\<close>: the router (when the room has none),
  \<open>router.canConsume\<close>, and \<open>transport.consume\<close>, which returns the consumer's id and
  kind.
\<close>

definition createConsumer ::
  "mediaRouter \<Rightarrow> string \<Rightarrow> string \<Rightarrow> nat result \<Rightarrow> bool \<Rightarrow> (string \<times> string) result \<Rightarrow>
   mediaRouter \<times> (string \<times> string \<times> string) result" where
  "createConsumer m transportId producerId createRouter canConsume consume =
     (case map_of (transports m) transportId of
        None \<Rightarrow> (m, Inl (''Transport '' @ transportId @ '' not found''))
      | Some transportInfo \<Rightarrow>
          (case map_of (producers m) producerId of
             None \<Rightarrow> (m, Inl (''Producer '' @ producerId @ '' not found''))
           | Some producerInfo \<Rightarrow>
               (case getOrCreateRouter m (t_roomId transportInfo) createRouter of
                  Inl e \<Rightarrow> (m, Inl e)
                | Inr (m1, router) \<Rightarrow>
                    if \<not> canConsume then (m1, Inl ''Cannot consume producer'')
                    else
                      (case consume of
                         Inl e \<Rightarrow> (m1, Inl e)
                       | Inr (consumerId, consumerKind) \<Rightarrow>
                           (m1\<lparr> consumers := AList.update consumerId
                                  \<lparr> c_peerId = t_peerId transportInfo,
                                    c_roomId = t_roomId transportInfo,
                                    c_producerId = producerId \<rparr> (consumers m1) \<rparr>,
                            Inr (consumerId, producerId, consumerKind))))))"

definition resumeConsumer :: "mediaRouter \<Rightarrow> string \<Rightarrow> unit result \<Rightarrow> unit result" where
  "resumeConsumer m consumerId resume =
     (case map_of (consumers m) consumerId of
        None \<Rightarrow> Inl (''Consumer '' @ consumerId @ '' not found'')
      | Some consumerInfo \<Rightarrow> resume)"

definition pauseConsumer :: "mediaRouter \<Rightarrow> string \<Rightarrow> unit result \<Rightarrow> unit result" where
  "pauseConsumer m consumerId pause =
     (case map_of (consumers m) consumerId of
        None \<Rightarrow> Inl (''Consumer '' @ consumerId @ '' not found'')
      | Some consumerInfo \<Rightarrow> pause)"

text \<open>\<open>closeProducer\<close> catches every error and rethrows none: it always returns.\<close>

definition closeProducer :: "mediaRouter \<Rightarrow> string \<Rightarrow> mediaRouter" where
  "closeProducer m producerId =
     (case map_of (producers m) producerId of
        None \<Rightarrow> m
      | Some producerInfo \<Rightarrow>
          (let m1 = m\<lparr> producers := AList.delete producerId (producers m) \<rparr>
           in m1\<lparr> consumers :=
                   delete_matching (\<lambda>consumerInfo. c_producerId consumerInfo = producerId)
                     (consumers m1) (consumers m1) \<rparr>))"

definition getRouterCapabilities :: "mediaRouter \<Rightarrow> string \<Rightarrow> nat result \<Rightarrow> (mediaRouter \<times> nat) result" where
  "getRouterCapabilities m roomId createRouter = getOrCreateRouter m roomId createRouter"

text \<open>An entry of \<open>existingProducers\<close>: id, peerId, kind.\<close>

type_synonym producerEntry = "string \<times> string \<times> string"

fun getRoomProducers :: "(string, producerInfo) jsmap \<Rightarrow> string \<Rightarrow> string \<Rightarrow> producerEntry list" where
  "getRoomProducers [] roomId excludePeerId = []"
| "getRoomProducers ((producerId, producerInfo) # rest) roomId excludePeerId =
     (if p_roomId producerInfo = roomId \<and> p_peerId producerInfo \<noteq> excludePeerId
      then (producerId, p_peerId producerInfo, p_kind producerInfo) # getRoomProducers rest roomId excludePeerId
      else getRoomProducers rest roomId excludePeerId)"

text \<open>
  The second loop of \<open>leavePeer\<close>: \<open>closeProducer\<close> for every producer of the peer in
  the room. The first argument is the list of the entries still to visit.
\<close>

fun close_producers_of :: "string \<Rightarrow> string \<Rightarrow> (string, producerInfo) jsmap \<Rightarrow> mediaRouter \<Rightarrow> mediaRouter" where
  "close_producers_of peerId roomId [] m = m"
| "close_producers_of peerId roomId ((producerId, producerInfo) # rest) m =
     close_producers_of peerId roomId rest
       (if p_peerId producerInfo = peerId \<and> p_roomId producerInfo = roomId
        then closeProducer m producerId else m)"

definition leavePeer :: "mediaRouter \<Rightarrow> string \<Rightarrow> string \<Rightarrow> mediaRouter" where
  "leavePeer m peerId roomId =
     (let m1 = m\<lparr> transports :=
                  delete_matching (\<lambda>transportInfo. t_peerId transportInfo = peerId \<and> t_roomId transportInfo = roomId)
                    (transports m) (transports m) \<rparr>;
          m2 = close_producers_of peerId roomId (producers m1) m1;
          m3 = m2\<lparr> consumers :=
                   delete_matching (\<lambda>consumerInfo. c_peerId consumerInfo = peerId \<and> c_roomId consumerInfo = roomId)
                     (consumers m2) (consumers m2) \<rparr>
      in case map_of (rooms m3) roomId of
           None \<Rightarrow> m3
         | Some room \<Rightarrow>
             (let peers = set_delete (r_peers room) peerId
              in if length peers = 0
                 then m3\<lparr> routers := AList.delete roomId (routers m3),
                          rooms := AList.delete roomId (rooms m3) \<rparr>
                 else m3\<lparr> rooms := AList.update roomId (room\<lparr> r_peers := peers \<rparr>) (rooms m3) \<rparr>))"

subsection \<open>Socket.IO rooms and messages\<close>

text \<open>
  The messages a socket can be sent. \<open>producer-closed\<close> is emitted with two
  payloads, \<open>{peerId, producerId}\<close> to the room and \<open>{producerId}\<close> to the sender:
  the first argument of \<open>ProducerClosed\<close> is the \<open>peerId\<close>, when there is one. The
  error messages carry \<open>error\<close> and \<open>details\<close>.
\<close>

datatype message =
    VideoRoomJoined nat "producerEntry list"
  | NewPeerJoined string
  | VideoRoomLeft string
  | PeerLeft string
  | VideoRoomError string string
  | TransportCreated string string
  | TransportConnected string
  | TransportError string string
  | ProducerCreated string string
  | NewProducerAvailable string string string
  | ProducerError string string
  | ConsumerCreated string string string
  | ConsumerResumed string
  | ConsumerPaused string
  | ConsumerError string string
  | ProducerClosed "string option" string

text \<open>An emission is a message together with the socket that receives it.\<close>

type_synonym emission = "string \<times> message"

text \<open>
  The state of the server: the registries, and the pairs (socket id, room name) of the
  sockets that have joined a Socket.IO room, in the order of joining.
\<close>

record server =
  sfu :: mediaRouter
  joined :: "(string \<times> string) list"

definition video_room :: "string \<Rightarrow> string" where
  "video_room roomId = ''video-'' @ roomId"

definition socket_join :: "(string \<times> string) list \<Rightarrow> string \<Rightarrow> string \<Rightarrow> (string \<times> string) list" where
  "socket_join j socket room = set_add j (socket, room)"

definition socket_leave :: "(string \<times> string) list \<Rightarrow> string \<Rightarrow> string \<Rightarrow> (string \<times> string) list" where
  "socket_leave j socket room = set_delete j (socket, room)"

definition room_members :: "(string \<times> string) list \<Rightarrow> string \<Rightarrow> string list" where
  "room_members j room = map fst (filter (\<lambda>(socket, r). r = room) j)"

text \<open>\<open>socket.emit(msg)\<close> and \<open>socket.to(room).emit(msg)\<close>.\<close>

definition socket_emit :: "string \<Rightarrow> message \<Rightarrow> emission list" where
  "socket_emit socket msg = [(socket, msg)]"

definition socket_to_emit :: "(string \<times> string) list \<Rightarrow> string \<Rightarrow> string \<Rightarrow> message \<Rightarrow> emission list" where
  "socket_to_emit j socket room msg =
     map (\<lambda>receiver. (receiver, msg)) (filter (\<lambda>receiver. receiver \<noteq> socket) (room_members j room))"

subsection \<open>The handlers of \<open>handleSFUOperations\<close>\<close>

text \<open>
  Each handler takes the state of the server, the id of the socket the event arrived on
  (\<open>socket.id\<close>, which the handlers use as \<open>peerId\<close>), the fields of the payload and
  the engine's outcomes, and returns the new state and the emissions in the order of the
  \<open>emit\<close> calls.
\<close>

definition on_join_video_room :: "server \<Rightarrow> string \<Rightarrow> string \<Rightarrow> nat result \<Rightarrow> server \<times> emission list" where
  "on_join_video_room s socket roomId createRouter =
     (let peerId = socket;
          s1 = s\<lparr> joined := socket_join (joined s) socket (video_room roomId) \<rparr>
      in case getRouterCapabilities (sfu s1) roomId createRouter of
           Inl e \<Rightarrow> (s1, socket_emit socket (VideoRoomError ''Failed to join video room'' e))
         | Inr (m1, routerCapabilities) \<Rightarrow>
             (let existingProducers = getRoomProducers (producers m1) roomId peerId
              in (s1\<lparr> sfu := m1 \<rparr>,
                  socket_emit socket (VideoRoomJoined routerCapabilities existingProducers)
                  @ socket_to_emit (joined s1) socket (video_room roomId) (NewPeerJoined peerId))))"

definition on_leave_video_room :: "server \<Rightarrow> string \<Rightarrow> string \<Rightarrow> server \<times> emission list" where
  "on_leave_video_room s socket roomId =
     (let peerId = socket;
          s1 = s\<lparr> joined := socket_leave (joined s) socket (video_room roomId) \<rparr>;
          s2 = s1\<lparr> sfu := leavePeer (sfu s1) peerId roomId \<rparr>
      in (s2, socket_to_emit (joined s2) socket (video_room roomId) (PeerLeft peerId)
              @ socket_emit socket (VideoRoomLeft roomId)))"

definition on_create_transport ::
  "server \<Rightarrow> string \<Rightarrow> string \<Rightarrow> string \<Rightarrow> nat result \<Rightarrow> string result \<Rightarrow> server \<times> emission list" where
  "on_create_transport s socket roomId direction createRouter createTransport =
     (let peerId = socket
      in case createWebRtcTransport (sfu s) roomId peerId direction createRouter createTransport of
           (m1, Inl e) \<Rightarrow>
             (s\<lparr> sfu := m1 \<rparr>, socket_emit socket (TransportError ''Failed to create transport'' e))
         | (m1, Inr transportId) \<Rightarrow>
             (s\<lparr> sfu := m1 \<rparr>, socket_emit socket (TransportCreated direction transportId)))"

definition on_connect_transport :: "server \<Rightarrow> string \<Rightarrow> string \<Rightarrow> unit result \<Rightarrow> server \<times> emission list" where
  "on_connect_transport s socket transportId connect =
     (case connectTransport (sfu s) transportId connect of
        Inl e \<Rightarrow> (s, socket_emit socket (TransportError ''Failed to connect transport'' e))
      | Inr _ \<Rightarrow> (s, socket_emit socket (TransportConnected transportId)))"

text \<open>
  The listener every socket registers on the \<open>newProducer\<close> event, and
  \<open>this.emit('newProducer', ...)\<close>, which calls the listeners in the order of their
  registration.
\<close>

definition newProducer_listener :: "(string \<times> string) list \<Rightarrow> string \<Rightarrow> newProducer \<Rightarrow> emission list" where
  "newProducer_listener j socket ev =
     (case ev of (roomId, peerId, producerId, kind) \<Rightarrow>
        socket_to_emit j socket (video_room roomId) (NewProducerAvailable peerId producerId kind))"

definition emit_newProducer :: "string list \<Rightarrow> (string \<times> string) list \<Rightarrow> newProducer \<Rightarrow> emission list" where
  "emit_newProducer ls j ev = concat (map (\<lambda>socket. newProducer_listener j socket ev) ls)"

definition on_create_producer ::
  "server \<Rightarrow> string \<Rightarrow> string \<Rightarrow> string \<Rightarrow> string \<Rightarrow> string result \<Rightarrow> server \<times> emission list" where
  "on_create_producer s socket transportId kind roomId produce =
     (let peerId = socket
      in case createProducer (sfu s) transportId kind produce of
           Inl e \<Rightarrow> (s, socket_emit socket (ProducerError ''Failed to create producer'' e))
         | Inr (m1, producerId, ev) \<Rightarrow>
             (s\<lparr> sfu := m1 \<rparr>,
              emit_newProducer (listeners m1) (joined s) ev
              @ socket_emit socket (ProducerCreated producerId kind)
              @ socket_to_emit (joined s) socket (video_room roomId)
                  (NewProducerAvailable peerId producerId kind)))"

definition on_create_consumer ::
  "server \<Rightarrow> string \<Rightarrow> string \<Rightarrow> string \<Rightarrow> nat result \<Rightarrow> bool \<Rightarrow> (string \<times> string) result \<Rightarrow>
   server \<times> emission list" where
  "on_create_consumer s socket transportId producerId createRouter canConsume consume =
     (case createConsumer (sfu s) transportId producerId createRouter canConsume consume of
        (m1, Inl e) \<Rightarrow>
          (s\<lparr> sfu := m1 \<rparr>, socket_emit socket (ConsumerError ''Failed to create consumer'' e))
      | (m1, Inr (consumerId, producerId', consumerKind)) \<Rightarrow>
          (s\<lparr> sfu := m1 \<rparr>, socket_emit socket (ConsumerCreated consumerId producerId' consumerKind)))"

definition on_resume_consumer :: "server \<Rightarrow> string \<Rightarrow> string \<Rightarrow> unit result \<Rightarrow> server \<times> emission list" where
  "on_resume_consumer s socket consumerId resume =
     (case resumeConsumer (sfu s) consumerId resume of
        Inl e \<Rightarrow> (s, socket_emit socket (ConsumerError ''Failed to resume consumer'' e))
      | Inr _ \<Rightarrow> (s, socket_emit socket (ConsumerResumed consumerId)))"

definition on_pause_consumer :: "server \<Rightarrow> string \<Rightarrow> string \<Rightarrow> unit result \<Rightarrow> server \<times> emission list" where
  "on_pause_consumer s socket consumerId pause =
     (case pauseConsumer (sfu s) consumerId pause of
        Inl e \<Rightarrow> (s, socket_emit socket (ConsumerError ''Failed to pause consumer'' e))
      | Inr _ \<Rightarrow> (s, socket_emit socket (ConsumerPaused consumerId)))"

definition on_close_producer :: "server \<Rightarrow> string \<Rightarrow> string \<Rightarrow> string \<Rightarrow> server \<times> emission list" where
  "on_close_producer s socket producerId roomId =
     (let peerId = socket;
          s1 = s\<lparr> sfu := closeProducer (sfu s) producerId \<rparr>
      in (s1, socket_to_emit (joined s1) socket (video_room roomId) (ProducerClosed (Some peerId) producerId)
              @ socket_emit socket (ProducerClosed None producerId)))"

text \<open>
  The \<open>disconnect\<close> handler. \<open>socket_rooms\<close> is what \<open>socket.rooms\<close> holds when the
  handler runs. The rooms kept start with \<open>video-\<close>, so
  \<open>socketRoom.replace('video-', '')\<close> drops that prefix. Socket.IO takes a
  disconnected socket out of every room, and it does so before it emits \<open>disconnect\<close>:
  on a running server the handler finds \<open>socket.rooms\<close> empty.
\<close>

definition startsWith :: "string \<Rightarrow> string \<Rightarrow> bool" where
  "startsWith str pre = (take (length pre) str = pre)"

definition replace_video :: "string \<Rightarrow> string" where
  "replace_video socketRoom = drop (length ''video-'') socketRoom"

fun cleanup_rooms :: "server \<Rightarrow> string \<Rightarrow> string list \<Rightarrow> server \<times> emission list" where
  "cleanup_rooms s socket [] = (s, [])"
| "cleanup_rooms s socket (socketRoom # rest) =
     (let peerId = socket;
          roomId = replace_video socketRoom;
          s1 = s\<lparr> sfu := leavePeer (sfu s) peerId roomId \<rparr>;
          out = socket_to_emit (joined s1) socket socketRoom (PeerLeft peerId)
      in case cleanup_rooms s1 socket rest of (s2, out2) \<Rightarrow> (s2, out @ out2))"

definition on_disconnect :: "server \<Rightarrow> string \<Rightarrow> string list \<Rightarrow> server \<times> emission list" where
  "on_disconnect s socket socket_rooms =
     (let socketRooms = filter (\<lambda>room. startsWith room ''video-'' \<and> room \<noteq> socket) socket_rooms;
          s1 = s\<lparr> joined := filter (\<lambda>(sock, room). sock \<noteq> socket) (joined s) \<rparr>
      in cleanup_rooms s1 socket socketRooms)"

text \<open>
  \<open>handleSFUOperations(socket, io, mediaRouter)\<close> itself, called once for a socket
  when it connects: it installs the handlers above and one more listener of
  \<open>newProducer\<close>, which is never removed.
\<close>

definition handleSFUOperations :: "server \<Rightarrow> string \<Rightarrow> server" where
  "handleSFUOperations s socket = s\<lparr> sfu := (sfu s)\<lparr> listeners := listeners (sfu s) @ [socket] \<rparr> \<rparr>"

subsection \<open>Events and runs\<close>

datatype event =
    Connection
  | JoinVideoRoom string "nat result"
  | LeaveVideoRoom string
  | CreateTransport string string "nat result" "string result"
  | ConnectTransport string "unit result"
  | CreateProducer string string string "string result"
  | CreateConsumer string string "nat result" bool "(string \<times> string) result"
  | ResumeConsumer string "unit result"
  | PauseConsumer string "unit result"
  | CloseProducer string string
  | Disconnect "string list"

fun handle :: "server \<Rightarrow> string \<Rightarrow> event \<Rightarrow> server \<times> emission list" where
  "handle s socket Connection = (handleSFUOperations s socket, [])"
| "handle s socket (JoinVideoRoom roomId createRouter) = on_join_video_room s socket roomId createRouter"
| "handle s socket (LeaveVideoRoom roomId) = on_leave_video_room s socket roomId"
| "handle s socket (CreateTransport roomId direction createRouter createTransport) =
     on_create_transport s socket roomId direction createRouter createTransport"
| "handle s socket (ConnectTransport transportId connect) = on_connect_transport s socket transportId connect"
| "handle s socket (CreateProducer transportId kind roomId produce) =
     on_create_producer s socket transportId kind roomId produce"
| "handle s socket (CreateConsumer transportId producerId createRouter canConsume consume) =
     on_create_consumer s socket transportId producerId createRouter canConsume consume"
| "handle s socket (ResumeConsumer consumerId resume) = on_resume_consumer s socket consumerId resume"
| "handle s socket (PauseConsumer consumerId pause) = on_pause_consumer s socket consumerId pause"
| "handle s socket (CloseProducer producerId roomId) = on_close_producer s socket producerId roomId"
| "handle s socket (Disconnect socket_rooms) = on_disconnect s socket socket_rooms"

text \<open>A run handles the events one after the other and collects what was sent.\<close>

fun run :: "server \<Rightarrow> (string \<times> event) list \<Rightarrow> server \<times> emission list" where
  "run s [] = (s, [])"
| "run s ((socket, ev) # evs) =
     (case handle s socket ev of (s1, out) \<Rightarrow>
        (case run s1 evs of (s2, out2) \<Rightarrow> (s2, out @ out2)))"

text \<open>
  The server after boot, when \<open>initialize\<close> has created the worker 0: one worker, no
  room, no socket.
\<close>

definition booted :: server where
  "booted = \<lparr> sfu = new_MediaRouter\<lparr> workers := [0] \<rparr>, joined = [] \<rparr>"

subsection \<open>Auxiliary definitions\<close>

text \<open>
  \<open>leavePeer\<close> in two steps, for the proofs: its three loops, and its last step on the
  room.
\<close>

definition leave_loops :: "mediaRouter \<Rightarrow> string \<Rightarrow> string \<Rightarrow> mediaRouter" where
  "leave_loops m peerId roomId =
     (let m1 = m\<lparr> transports :=
                  delete_matching (\<lambda>transportInfo. t_peerId transportInfo = peerId \<and> t_roomId transportInfo = roomId)
                    (transports m) (transports m) \<rparr>;
          m2 = close_producers_of peerId roomId (producers m1) m1
      in m2\<lparr> consumers :=
                   delete_matching (\<lambda>consumerInfo. c_peerId consumerInfo = peerId \<and> c_roomId consumerInfo = roomId)
                     (consumers m2) (consumers m2) \<rparr>)"

definition leave_room :: "mediaRouter \<Rightarrow> string \<Rightarrow> string \<Rightarrow> mediaRouter" where
  "leave_room m3 peerId roomId =
     (case map_of (rooms m3) roomId of
           None \<Rightarrow> m3
         | Some room \<Rightarrow>
             (let peers = set_delete (r_peers room) peerId
              in if length peers = 0
                 then m3\<lparr> routers := AList.delete roomId (routers m3),
                          rooms := AList.delete roomId (rooms m3) \<rparr>
                 else m3\<lparr> rooms := AList.update roomId (room\<lparr> r_peers := peers \<rparr>) (rooms m3) \<rparr>))"

text \<open>
  The member set of a room (\<open>room.peers\<close>), empty when there is no such room, and the
  events that the specification takes to mutate a transport, producer or consumer.
\<close>

definition room_peers :: "mediaRouter \<Rightarrow> string \<Rightarrow> string list" where
  "room_peers m roomId = (case map_of (rooms m) roomId of None \<Rightarrow> [] | Some room \<Rightarrow> r_peers room)"

fun mutates_resource :: "event \<Rightarrow> bool" where
  "mutates_resource (ConnectTransport transportId connect) = True"
| "mutates_resource (CreateProducer transportId kind roomId produce) = True"
| "mutates_resource (CloseProducer producerId roomId) = True"
| "mutates_resource (ResumeConsumer consumerId resume) = True"
| "mutates_resource (PauseConsumer consumerId pause) = True"
| "mutates_resource _ = False"

text \<open>
  In the states the server reaches, the maps \<open>routers\<close> and \<open>rooms\<close> have the same keys:
  the two are set together and deleted together.
\<close>

definition registry_inv :: "mediaRouter \<Rightarrow> bool" where
  "registry_inv m = (fst ` set (routers m) = fst ` set (rooms m))"

text \<open>
  Sample states. Two peers connect and join room A, and each creates a send transport; no
  \<open>connect-transport\<close> is ever issued. Then each creates a video producer; then each
  creates a receive transport and consumes the producer of the other.
\<close>

definition two_joined :: server where
  "two_joined = fst (run booted
     [(''p1'', Connection), (''p2'', Connection),
      (''p1'', JoinVideoRoom ''A'' (Inr 7)), (''p2'', JoinVideoRoom ''A'' (Inr 8)),
      (''p1'', CreateTransport ''A'' ''send'' (Inr 9) (Inr ''t1'')),
      (''p2'', CreateTransport ''A'' ''send'' (Inr 9) (Inr ''t2''))])"

definition both_producing :: server where
  "both_producing = fst (run two_joined
     [(''p1'', CreateProducer ''t1'' ''video'' ''A'' (Inr ''prod1'')),
      (''p2'', CreateProducer ''t2'' ''video'' ''A'' (Inr ''prod2''))])"

definition consuming :: server where
  "consuming = fst (run both_producing
     [(''p1'', CreateTransport ''A'' ''recv'' (Inr 9) (Inr ''t3'')),
      (''p2'', CreateTransport ''A'' ''recv'' (Inr 9) (Inr ''t4'')),
      (''p1'', CreateConsumer ''t3'' ''prod2'' (Inr 9) True (Inr (''c1'', ''video''))),
      (''p2'', CreateConsumer ''t4'' ''prod1'' (Inr 9) True (Inr (''c2'', ''video'')))])"

text \<open>The events that lead from \<open>booted\<close> to \<open>both_producing\<close>.\<close>

definition both_producing_events :: "(string \<times> event) list" where
  "both_producing_events =
     [(''p1'', Connection), (''p2'', Connection),
      (''p1'', JoinVideoRoom ''A'' (Inr 7)), (''p2'', JoinVideoRoom ''A'' (Inr 8)),
      (''p1'', CreateTransport ''A'' ''send'' (Inr 9) (Inr ''t1'')),
      (''p2'', CreateTransport ''A'' ''send'' (Inr 9) (Inr ''t2'')),
      (''p1'', CreateProducer ''t1'' ''video'' ''A'' (Inr ''prod1'')),
      (''p2'', CreateProducer ''t2'' ''video'' ''A'' (Inr ''prod2''))]"

section \<open>Facts about the model\<close>

lemmas sfu_defs = booted_def new_MediaRouter_def handleSFUOperations_def
  on_join_video_room_def on_leave_video_room_def on_create_transport_def on_connect_transport_def
  on_create_producer_def on_create_consumer_def on_resume_consumer_def on_pause_consumer_def
  on_close_producer_def on_disconnect_def
  getRouterCapabilities_def getOrCreateRouter_def createWebRtcTransport_def connectTransport_def
  createProducer_def createConsumer_def resumeConsumer_def pauseConsumer_def closeProducer_def leavePeer_def
  socket_join_def socket_leave_def room_members_def socket_emit_def socket_to_emit_def video_room_def
  set_add_def set_delete_def newProducer_listener_def emit_newProducer_def startsWith_def replace_video_def
  Let_def

subsection \<open>Facts about the loops\<close>

lemma delete_matching_subset: "set (delete_matching c xs m) \<subseteq> set m"
proof (induction xs arbitrary: m)
  case Nil
  show ?case by simp
next
  case (Cons e xs)
  obtain k v where e: "e = (k, v)" by (cases e)
  have "set (AList.delete k m) \<subseteq> set m" by (auto simp: AList.delete_eq)
  with Cons.IH [of "AList.delete k m"] Cons.IH [of m] show ?case
    unfolding e by (cases "c v") auto
qed

lemma delete_matching_keys:
  "fst ` set (delete_matching c xs m) \<subseteq> fst ` set m"
  using delete_matching_subset [of c xs m] by auto

lemma delete_matching_gone:
  "(k, v) \<in> set xs \<Longrightarrow> c v \<Longrightarrow> k \<notin> fst ` set (delete_matching c xs m)"
proof (induction xs arbitrary: m)
  case Nil
  then show ?case by simp
next
  case (Cons e xs)
  obtain k' v' where e: "e = (k', v')" by (cases e)
  show ?case
  proof (cases "(k, v) = e")
    case True
    with e Cons.prems have "delete_matching c (e # xs) m = delete_matching c xs (AList.delete k m)"
      by simp
    moreover have "k \<notin> fst ` set (AList.delete k m)" by (rule delete_notin_dom)
    ultimately show ?thesis using delete_matching_keys [of c xs "AList.delete k m"] by auto
  next
    case False
    with Cons.prems have "(k, v) \<in> set xs" by simp
    with Cons.IH Cons.prems(2) show ?thesis unfolding e by simp
  qed
qed

lemma delete_matching_clean:
  "(k, v) \<in> set (delete_matching c m m) \<Longrightarrow> \<not> c v"
proof
  assume in_res: "(k, v) \<in> set (delete_matching c m m)" and "c v"
  from in_res have "(k, v) \<in> set m" using delete_matching_subset by fastforce
  then have "k \<notin> fst ` set (delete_matching c m m)" using \<open>c v\<close> by (rule delete_matching_gone)
  with in_res show False by force
qed

lemma delete_matching_none:
  "\<forall>e \<in> set xs. \<not> c (snd e) \<Longrightarrow> delete_matching c xs m = m"
  by (induction xs arbitrary: m) auto

lemma delete_matching_idem:
  "delete_matching c (delete_matching c m m) (delete_matching c m m) = delete_matching c m m"
  by (rule delete_matching_none) (auto dest: delete_matching_clean)

lemma delete_entry:
  assumes "distinct (map fst m0)" "set m \<subseteq> set m0" "(k, v) \<in> set m0"
  shows "AList.delete k m = filter (\<lambda>e. e \<noteq> (k, v)) m"
proof -
  have "\<And>e. e \<in> set m \<Longrightarrow> (fst e \<noteq> k) = (e \<noteq> (k, v))"
  proof -
    fix e assume "e \<in> set m"
    with assms(2) have "e \<in> set m0" by auto
    with assms(1,3) show "(fst e \<noteq> k) = (e \<noteq> (k, v))"
      by (cases e) (auto dest: eq_key_imp_eq_value)
  qed
  then show ?thesis unfolding AList.delete_eq
    by (intro filter_cong) (auto simp: case_prod_beta)
qed

lemma delete_matching_filter_gen:
  "distinct (map fst m0) \<Longrightarrow> set xs \<subseteq> set m0 \<Longrightarrow> set m \<subseteq> set m0 \<Longrightarrow>
   delete_matching c xs m = filter (\<lambda>e. \<not> (c (snd e) \<and> e \<in> set xs)) m"
proof (induction xs arbitrary: m)
  case Nil
  then show ?case by simp
next
  case (Cons e xs)
  obtain k v where e: "e = (k, v)" by (cases e)
  show ?case
  proof (cases "c v")
    case True
    from Cons.prems e have in0: "(k, v) \<in> set m0" by simp
    have del: "AList.delete k m = filter (\<lambda>e. e \<noteq> (k, v)) m"
      using Cons.prems(1,3) in0 by (rule delete_entry)
    have sub: "set (AList.delete k m) \<subseteq> set m0" using Cons.prems(3) unfolding del by auto
    have "delete_matching c (e # xs) m = delete_matching c xs (AList.delete k m)"
      using True e by simp
    also have "\<dots> = filter (\<lambda>e. \<not> (c (snd e) \<and> e \<in> set xs)) (AList.delete k m)"
      using Cons.IH [OF Cons.prems(1) _ sub] Cons.prems(2) by simp
    also have "\<dots> = filter (\<lambda>e'. \<not> (c (snd e') \<and> e' \<in> set (e # xs))) m"
      unfolding del e using True by (auto intro: filter_cong)
    finally show ?thesis .
  next
    case False
    have "delete_matching c (e # xs) m = delete_matching c xs m" using False e by simp
    also have "\<dots> = filter (\<lambda>e. \<not> (c (snd e) \<and> e \<in> set xs)) m"
      using Cons.IH [OF Cons.prems(1) _ Cons.prems(3)] Cons.prems(2) by simp
    also have "\<dots> = filter (\<lambda>e'. \<not> (c (snd e') \<and> e' \<in> set (e # xs))) m"
      using False e by (auto intro: filter_cong)
    finally show ?thesis .
  qed
qed

lemma delete_matching_filter:
  "distinct (map fst m) \<Longrightarrow> delete_matching c m m = filter (\<lambda>e. \<not> c (snd e)) m"
  using delete_matching_filter_gen [of m m m c] by (auto intro: filter_cong)

subsection \<open>Facts about \<open>closeProducer\<close> and \<open>leavePeer\<close>\<close>

lemma closeProducer_producers:
  "producers (closeProducer m producerId) = AList.delete producerId (producers m)"
proof (cases "map_of (producers m) producerId")
  case None
  then have "producerId \<notin> fst ` set (producers m)" by (simp add: map_of_eq_None_iff)
  with None show ?thesis by (simp add: closeProducer_def)
next
  case (Some info)
  then show ?thesis by (simp add: closeProducer_def Let_def)
qed

lemma closeProducer_consumers_subset:
  "set (consumers (closeProducer m producerId)) \<subseteq> set (consumers m)"
  using delete_matching_subset [of _ "consumers m" "consumers m"]
  by (auto simp: closeProducer_def Let_def split: option.splits)

lemma closeProducer_frame [simp]:
  "workers (closeProducer m producerId) = workers m"
  "routers (closeProducer m producerId) = routers m"
  "transports (closeProducer m producerId) = transports m"
  "rooms (closeProducer m producerId) = rooms m"
  "listeners (closeProducer m producerId) = listeners m"
  by (simp_all add: closeProducer_def Let_def split: option.splits)

lemma closeProducer_absent:
  "map_of (producers m) producerId = None \<Longrightarrow> closeProducer m producerId = m"
  by (simp add: closeProducer_def)

lemma close_producers_of_frame [simp]:
  "workers (close_producers_of peerId roomId xs m) = workers m"
  "routers (close_producers_of peerId roomId xs m) = routers m"
  "transports (close_producers_of peerId roomId xs m) = transports m"
  "rooms (close_producers_of peerId roomId xs m) = rooms m"
  "listeners (close_producers_of peerId roomId xs m) = listeners m"
  by (induction xs arbitrary: m; auto)+

lemma close_producers_of_subset:
  "set (producers (close_producers_of peerId roomId xs m)) \<subseteq> set (producers m)"
proof (induction xs arbitrary: m)
  case Nil
  show ?case by simp
next
  case (Cons e xs)
  obtain k v where e: "e = (k, v)" by (cases e)
  have "set (producers (closeProducer m k)) \<subseteq> set (producers m)"
    by (auto simp: closeProducer_producers AList.delete_eq)
  with Cons.IH [of "closeProducer m k"] Cons.IH [of m] show ?case
    unfolding e by (cases "p_peerId v = peerId \<and> p_roomId v = roomId") auto
qed

lemma close_producers_of_consumers_subset:
  "set (consumers (close_producers_of peerId roomId xs m)) \<subseteq> set (consumers m)"
proof (induction xs arbitrary: m)
  case Nil
  show ?case by simp
next
  case (Cons e xs)
  obtain k v where e: "e = (k, v)" by (cases e)
  from Cons.IH [of "closeProducer m k"] Cons.IH [of m] closeProducer_consumers_subset [of m k]
  show ?case
    unfolding e by (cases "p_peerId v = peerId \<and> p_roomId v = roomId") auto
qed

lemma close_producers_of_gone:
  "(k, v) \<in> set xs \<Longrightarrow> p_peerId v = peerId \<Longrightarrow> p_roomId v = roomId \<Longrightarrow>
   k \<notin> fst ` set (producers (close_producers_of peerId roomId xs m))"
proof (induction xs arbitrary: m)
  case Nil
  then show ?case by simp
next
  case (Cons e xs)
  obtain k' v' where e: "e = (k', v')" by (cases e)
  show ?case
  proof (cases "(k, v) = e")
    case True
    with e Cons.prems have step: "close_producers_of peerId roomId (e # xs) m
        = close_producers_of peerId roomId xs (closeProducer m k)"
      by simp
    have "k \<notin> fst ` set (producers (closeProducer m k))"
      by (simp add: closeProducer_producers delete_notin_dom)
    then show ?thesis
      unfolding step using close_producers_of_subset [of peerId roomId xs "closeProducer m k"]
      by auto
  next
    case False
    with Cons.prems have "(k, v) \<in> set xs" by simp
    with Cons.IH Cons.prems(2,3) show ?thesis unfolding e by simp
  qed
qed

lemma close_producers_of_none:
  "\<forall>e \<in> set xs. \<not> (p_peerId (snd e) = peerId \<and> p_roomId (snd e) = roomId) \<Longrightarrow>
   close_producers_of peerId roomId xs m = m"
  by (induction xs arbitrary: m) auto

lemma close_producers_of_clean:
  assumes "(k, v) \<in> set (producers (close_producers_of peerId roomId (producers m) m))"
  shows "\<not> (p_peerId v = peerId \<and> p_roomId v = roomId)"
proof
  assume own: "p_peerId v = peerId \<and> p_roomId v = roomId"
  from assms have "(k, v) \<in> set (producers m)"
    using close_producers_of_subset by fastforce
  with own have "k \<notin> fst ` set (producers (close_producers_of peerId roomId (producers m) m))"
    by (simp add: close_producers_of_gone)
  with assms show False by force
qed

lemma leavePeer_steps: "leavePeer m peerId roomId = leave_room (leave_loops m peerId roomId) peerId roomId"
  unfolding leavePeer_def leave_loops_def leave_room_def Let_def by (rule refl)

lemma leave_room_frame [simp]:
  "workers (leave_room m peerId roomId) = workers m"
  "transports (leave_room m peerId roomId) = transports m"
  "producers (leave_room m peerId roomId) = producers m"
  "consumers (leave_room m peerId roomId) = consumers m"
  "listeners (leave_room m peerId roomId) = listeners m"
  by (simp_all add: leave_room_def Let_def split: option.splits)

lemma leave_loops_frame [simp]:
  "workers (leave_loops m peerId roomId) = workers m"
  "routers (leave_loops m peerId roomId) = routers m"
  "rooms (leave_loops m peerId roomId) = rooms m"
  "listeners (leave_loops m peerId roomId) = listeners m"
  by (simp_all add: leave_loops_def Let_def)

lemma leave_loops_fields:
  "transports (leave_loops m peerId roomId) =
     delete_matching (\<lambda>transportInfo. t_peerId transportInfo = peerId \<and> t_roomId transportInfo = roomId)
       (transports m) (transports m)"
  "set (producers (leave_loops m peerId roomId)) \<subseteq> set (producers m)"
  "set (consumers (leave_loops m peerId roomId)) \<subseteq> set (consumers m)"
proof -
  let ?m1 = "m\<lparr> transports :=
                  delete_matching (\<lambda>transportInfo. t_peerId transportInfo = peerId \<and> t_roomId transportInfo = roomId)
                    (transports m) (transports m) \<rparr>"
  let ?m2 = "close_producers_of peerId roomId (producers ?m1) ?m1"
  show "transports (leave_loops m peerId roomId) =
     delete_matching (\<lambda>transportInfo. t_peerId transportInfo = peerId \<and> t_roomId transportInfo = roomId)
       (transports m) (transports m)"
    by (simp add: leave_loops_def Let_def)
  have "set (producers ?m2) \<subseteq> set (producers ?m1)" by (rule close_producers_of_subset)
  then show "set (producers (leave_loops m peerId roomId)) \<subseteq> set (producers m)"
    by (simp add: leave_loops_def Let_def)
  have "set (consumers ?m2) \<subseteq> set (consumers ?m1)" by (rule close_producers_of_consumers_subset)
  moreover have "set (consumers (leave_loops m peerId roomId)) \<subseteq> set (consumers ?m2)"
    unfolding leave_loops_def Let_def by (simp add: delete_matching_subset)
  ultimately show "set (consumers (leave_loops m peerId roomId)) \<subseteq> set (consumers m)"
    by simp
qed

lemma leave_loops_clean:
  "\<forall>e \<in> set (transports (leave_loops m peerId roomId)). \<not> (t_peerId (snd e) = peerId \<and> t_roomId (snd e) = roomId)"
  "\<forall>e \<in> set (producers (leave_loops m peerId roomId)). \<not> (p_peerId (snd e) = peerId \<and> p_roomId (snd e) = roomId)"
  "\<forall>e \<in> set (consumers (leave_loops m peerId roomId)). \<not> (c_peerId (snd e) = peerId \<and> c_roomId (snd e) = roomId)"
proof -
  let ?m1 = "m\<lparr> transports :=
                  delete_matching (\<lambda>transportInfo. t_peerId transportInfo = peerId \<and> t_roomId transportInfo = roomId)
                    (transports m) (transports m) \<rparr>"
  show "\<forall>e \<in> set (transports (leave_loops m peerId roomId)). \<not> (t_peerId (snd e) = peerId \<and> t_roomId (snd e) = roomId)"
    unfolding leave_loops_fields(1) using delete_matching_clean by fastforce
  have "producers (leave_loops m peerId roomId) = producers (close_producers_of peerId roomId (producers ?m1) ?m1)"
    by (simp add: leave_loops_def Let_def)
  then show "\<forall>e \<in> set (producers (leave_loops m peerId roomId)). \<not> (p_peerId (snd e) = peerId \<and> p_roomId (snd e) = roomId)"
    using close_producers_of_clean [of _ _ peerId roomId ?m1] by fastforce
  show "\<forall>e \<in> set (consumers (leave_loops m peerId roomId)). \<not> (c_peerId (snd e) = peerId \<and> c_roomId (snd e) = roomId)"
    unfolding leave_loops_def Let_def using delete_matching_clean by fastforce
qed

lemma leave_loops_fix:
  assumes "\<forall>e \<in> set (transports m). \<not> (t_peerId (snd e) = peerId \<and> t_roomId (snd e) = roomId)"
    and "\<forall>e \<in> set (producers m). \<not> (p_peerId (snd e) = peerId \<and> p_roomId (snd e) = roomId)"
    and "\<forall>e \<in> set (consumers m). \<not> (c_peerId (snd e) = peerId \<and> c_roomId (snd e) = roomId)"
  shows "leave_loops m peerId roomId = m"
proof -
  have t: "delete_matching (\<lambda>transportInfo. t_peerId transportInfo = peerId \<and> t_roomId transportInfo = roomId)
             (transports m) (transports m) = transports m"
    using assms(1) by (rule delete_matching_none)
  have p: "close_producers_of peerId roomId (producers m) m = m"
    using assms(2) by (rule close_producers_of_none)
  have c: "delete_matching (\<lambda>consumerInfo. c_peerId consumerInfo = peerId \<and> c_roomId consumerInfo = roomId)
             (consumers m) (consumers m) = consumers m"
    using assms(3) by (rule delete_matching_none)
  show ?thesis by (simp add: leave_loops_def Let_def t p c)
qed

lemma leave_room_idem:
  "leave_room (leave_room m peerId roomId) peerId roomId = leave_room m peerId roomId"
proof (cases "map_of (rooms m) roomId")
  case None
  then show ?thesis by (simp add: leave_room_def)
next
  case (Some room)
  show ?thesis
  proof (cases "set_delete (r_peers room) peerId = []")
    case True
    with Some have "leave_room m peerId roomId =
        m\<lparr> routers := AList.delete roomId (routers m), rooms := AList.delete roomId (rooms m) \<rparr>"
      by (simp add: leave_room_def Let_def)
    then show ?thesis by (simp add: leave_room_def delete_conv')
  next
    case False
    let ?room = "room\<lparr> r_peers := set_delete (r_peers room) peerId \<rparr>"
    from False Some have one: "leave_room m peerId roomId =
        m\<lparr> rooms := AList.update roomId ?room (rooms m) \<rparr>"
      by (simp add: leave_room_def Let_def)
    have "set_delete (r_peers ?room) peerId = r_peers ?room" by (simp add: set_delete_def)
    with False show ?thesis
      unfolding one by (simp add: leave_room_def Let_def update_conv')
  qed
qed

lemma leavePeer_idem:
  "leavePeer (leavePeer m peerId roomId) peerId roomId = leavePeer m peerId roomId"
proof -
  let ?l = "leave_loops m peerId roomId"
  let ?m' = "leave_room ?l peerId roomId"
  have "leave_loops ?m' peerId roomId = ?m'"
    using leave_loops_clean [of m peerId roomId] by (intro leave_loops_fix) simp_all
  then show ?thesis by (simp add: leavePeer_steps leave_room_idem)
qed

lemma leavePeer_producers_clean:
  "(k, v) \<in> set (producers (leavePeer m peerId roomId)) \<Longrightarrow> \<not> (p_peerId v = peerId \<and> p_roomId v = roomId)"
  using leave_loops_clean(2) [of m peerId roomId] by (fastforce simp: leavePeer_steps)

lemma leavePeer_producers_subset:
  "set (producers (leavePeer m peerId roomId)) \<subseteq> set (producers m)"
  by (simp add: leavePeer_steps leave_loops_fields)

subsection \<open>Socket.IO facts\<close>

lemma others_socket_leave:
  "filter (\<lambda>receiver. receiver \<noteq> socket) (room_members (socket_leave j socket r) room)
   = filter (\<lambda>receiver. receiver \<noteq> socket) (room_members j room)"
  by (induction j) (auto simp: socket_leave_def set_delete_def room_members_def)

lemma socket_to_emit_leave:
  "socket_to_emit (socket_leave j socket r) socket room msg = socket_to_emit j socket room msg"
  by (simp add: socket_to_emit_def others_socket_leave)

lemma socket_leave_idem: "socket_leave (socket_leave j socket room) socket room = socket_leave j socket room"
  by (simp add: socket_leave_def set_delete_def)

lemma socket_leave_members: "socket \<notin> set (room_members (socket_leave j socket room) room)"
  by (auto simp: room_members_def socket_leave_def set_delete_def)

subsection \<open>More facts about \<open>leavePeer\<close>\<close>

lemma close_producers_of_producers:
  "producers (close_producers_of peerId roomId xs m) =
   delete_matching (\<lambda>producerInfo. p_peerId producerInfo = peerId \<and> p_roomId producerInfo = roomId)
     xs (producers m)"
  by (induction xs arbitrary: m) (auto simp: closeProducer_producers)

lemma leavePeer_producers_filter:
  assumes "distinct (map fst (producers m))"
  shows "producers (leavePeer m peerId roomId) =
    filter (\<lambda>(producerId, producerInfo). \<not> (p_peerId producerInfo = peerId \<and> p_roomId producerInfo = roomId))
      (producers m)"
proof -
  have "producers (leavePeer m peerId roomId) =
      delete_matching (\<lambda>producerInfo. p_peerId producerInfo = peerId \<and> p_roomId producerInfo = roomId)
        (producers m) (producers m)"
    by (simp add: leavePeer_steps leave_loops_def Let_def close_producers_of_producers)
  with assms show ?thesis by (simp add: delete_matching_filter case_prod_unfold)
qed

lemma leavePeer_transports_clean:
  "(k, v) \<in> set (transports (leavePeer m peerId roomId)) \<Longrightarrow> \<not> (t_peerId v = peerId \<and> t_roomId v = roomId)"
  using leave_loops_clean(1) [of m peerId roomId] by (fastforce simp: leavePeer_steps)

lemma leavePeer_consumers_clean:
  "(k, v) \<in> set (consumers (leavePeer m peerId roomId)) \<Longrightarrow> \<not> (c_peerId v = peerId \<and> c_roomId v = roomId)"
  using leave_loops_clean(3) [of m peerId roomId] by (fastforce simp: leavePeer_steps)

lemma leave_room_peers: "peerId \<notin> set (room_peers (leave_room m peerId roomId) roomId)"
proof (cases "map_of (rooms m) roomId")
  case None
  then show ?thesis by (simp add: leave_room_def room_peers_def)
next
  case (Some room)
  then show ?thesis
    by (auto simp: leave_room_def room_peers_def Let_def set_delete_def delete_conv' update_conv')
qed

lemma leavePeer_room_peers: "peerId \<notin> set (room_peers (leavePeer m peerId roomId) roomId)"
  by (simp add: leavePeer_steps leave_room_peers)

subsection \<open>Facts about the \<open>disconnect\<close> handler\<close>

text \<open>With \<open>socket.rooms\<close> empty the handler closes nothing and sends nothing.\<close>

lemma disconnect_without_rooms:
  "handle s socket (Disconnect []) = (s\<lparr> joined := filter (\<lambda>(sock, room). sock \<noteq> socket) (joined s) \<rparr>, [])"
  by (simp add: on_disconnect_def)

subsection \<open>Routers and rooms have the same keys\<close>

lemma keys_delete: "fst ` set (AList.delete k al) = fst ` set al - {k}"
  by (auto simp: AList.delete_eq image_iff)

lemma keys_update_present: "map_of al k = Some v \<Longrightarrow> fst ` set (AList.update k w al) = fst ` set al"
  by (auto simp: dom_update dest: map_of_SomeD intro: rev_image_eqI)

lemma registry_inv_getOrCreateRouter:
  "registry_inv m \<Longrightarrow> getOrCreateRouter m roomId createRouter = Inr (m1, router) \<Longrightarrow> registry_inv m1"
  by (clarsimp simp: registry_inv_def getOrCreateRouter_def dom_update split: option.splits list.splits sum.splits)

lemma registry_inv_createWebRtcTransport:
  "registry_inv m \<Longrightarrow>
   registry_inv (fst (createWebRtcTransport m roomId peerId direction createRouter createTransport))"
proof (cases "getOrCreateRouter m roomId createRouter")
  case (Inl e)
  assume "registry_inv m"
  with Inl show ?thesis by (simp add: createWebRtcTransport_def)
next
  case (Inr p)
  assume inv: "registry_inv m"
  obtain m1 router where p: "p = (m1, router)" by (cases p)
  from registry_inv_getOrCreateRouter [OF inv Inr [unfolded p]] have "registry_inv m1" .
  then show ?thesis
    using Inr p by (simp add: createWebRtcTransport_def registry_inv_def split: sum.splits)
qed

lemma registry_inv_createProducer:
  "registry_inv m \<Longrightarrow> createProducer m transportId kind produce = Inr (m1, producerId, ev) \<Longrightarrow> registry_inv m1"
  by (clarsimp simp: registry_inv_def createProducer_def Let_def keys_update_present
      split: option.splits sum.splits)

lemma registry_inv_createConsumer:
  "registry_inv m \<Longrightarrow>
   registry_inv (fst (createConsumer m transportId producerId createRouter canConsume consume))"
proof (cases "map_of (transports m) transportId")
  case None
  assume "registry_inv m"
  with None show ?thesis by (simp add: createConsumer_def)
next
  case (Some transportInfo)
  assume inv: "registry_inv m"
  show ?thesis
  proof (cases "map_of (producers m) producerId")
    case None
    with Some inv show ?thesis by (simp add: createConsumer_def)
  next
    case (Some producerInfo)
    show ?thesis
    proof (cases "getOrCreateRouter m (t_roomId transportInfo) createRouter")
      case (Inl e)
      with inv Some \<open>map_of (transports m) transportId = Some transportInfo\<close> show ?thesis
        by (simp add: createConsumer_def)
    next
      case (Inr p)
      obtain m1 router where p: "p = (m1, router)" by (cases p)
      from registry_inv_getOrCreateRouter [OF inv Inr [unfolded p]] have "registry_inv m1" .
      then show ?thesis
        using Inr p Some \<open>map_of (transports m) transportId = Some transportInfo\<close>
        by (simp add: createConsumer_def registry_inv_def split: sum.splits prod.splits)
    qed
  qed
qed

lemma registry_inv_closeProducer: "registry_inv m \<Longrightarrow> registry_inv (closeProducer m producerId)"
  by (simp add: registry_inv_def)

lemma registry_inv_leavePeer: "registry_inv m \<Longrightarrow> registry_inv (leavePeer m peerId roomId)"
  by (clarsimp simp: leavePeer_steps registry_inv_def leave_room_def Let_def keys_delete keys_update_present
      split: option.splits)

lemma registry_inv_cleanup_rooms:
  "registry_inv (sfu s) \<Longrightarrow> registry_inv (sfu (fst (cleanup_rooms s socket rs)))"
proof (induction rs arbitrary: s)
  case Nil
  then show ?case by simp
next
  case (Cons r rs)
  let ?s1 = "s\<lparr> sfu := leavePeer (sfu s) socket (replace_video r) \<rparr>"
  have "fst (cleanup_rooms s socket (r # rs)) = fst (cleanup_rooms ?s1 socket rs)"
    by (simp add: Let_def split: prod.splits)
  moreover have "registry_inv (sfu ?s1)" using Cons.prems by (simp add: registry_inv_leavePeer)
  ultimately show ?case using Cons.IH [of ?s1] by simp
qed

lemma registry_inv_handle:
  assumes "registry_inv (sfu s)"
  shows "registry_inv (sfu (fst (handle s socket ev)))"
proof (cases ev)
  case Connection
  with assms show ?thesis by (simp add: handleSFUOperations_def registry_inv_def)
next
  case (JoinVideoRoom roomId createRouter)
  with assms show ?thesis
    by (auto simp: on_join_video_room_def getRouterCapabilities_def Let_def
        split: sum.splits dest: registry_inv_getOrCreateRouter)
next
  case (LeaveVideoRoom roomId)
  with assms show ?thesis by (simp add: on_leave_video_room_def Let_def registry_inv_leavePeer)
next
  case (CreateTransport roomId direction createRouter createTransport)
  with registry_inv_createWebRtcTransport [OF assms, of roomId socket direction createRouter createTransport]
  show ?thesis by (auto simp: on_create_transport_def split: prod.splits sum.splits)
next
  case (ConnectTransport transportId connect)
  with assms show ?thesis by (simp add: on_connect_transport_def split: sum.splits)
next
  case (CreateProducer transportId kind roomId produce)
  with assms show ?thesis
    by (auto simp: on_create_producer_def split: sum.splits dest: registry_inv_createProducer)
next
  case (CreateConsumer transportId producerId createRouter canConsume consume)
  with registry_inv_createConsumer [OF assms, of transportId producerId createRouter canConsume consume]
  show ?thesis by (auto simp: on_create_consumer_def split: prod.splits sum.splits)
next
  case (ResumeConsumer consumerId resume)
  with assms show ?thesis by (simp add: on_resume_consumer_def split: sum.splits)
next
  case (PauseConsumer consumerId pause)
  with assms show ?thesis by (simp add: on_pause_consumer_def split: sum.splits)
next
  case (CloseProducer producerId roomId)
  with assms show ?thesis by (simp add: on_close_producer_def Let_def registry_inv_closeProducer)
next
  case (Disconnect socket_rooms)
  with assms show ?thesis
    by (simp add: on_disconnect_def Let_def registry_inv_cleanup_rooms)
qed

lemma registry_inv_run: "registry_inv (sfu s) \<Longrightarrow> registry_inv (sfu (fst (run s evs)))"
proof (induction evs arbitrary: s)
  case Nil
  then show ?case by simp
next
  case (Cons e evs)
  obtain socket ev where e: "e = (socket, ev)" by (cases e)
  let ?s1 = "fst (handle s socket ev)"
  have "fst (run s (e # evs)) = fst (run ?s1 evs)"
    unfolding e by (simp split: prod.splits)
  moreover have "registry_inv (sfu ?s1)" using Cons.prems by (rule registry_inv_handle)
  ultimately show ?case using Cons.IH [of ?s1] by simp
qed

lemma registry_inv_booted: "registry_inv (sfu booted)"
  by (simp add: registry_inv_def booted_def new_MediaRouter_def)

lemma member_set_has_router:
  "room_peers (sfu (fst (run booted evs))) roomId \<noteq> [] \<Longrightarrow> map_has (routers (sfu (fst (run booted evs)))) roomId"
proof -
  assume ne: "room_peers (sfu (fst (run booted evs))) roomId \<noteq> []"
  let ?m = "sfu (fst (run booted evs))"
  from ne obtain room where "map_of (rooms ?m) roomId = Some room"
    by (auto simp: room_peers_def split: option.splits)
  then have "roomId \<in> fst ` set (rooms ?m)" by (auto dest: map_of_SomeD intro: rev_image_eqI)
  moreover have "registry_inv ?m" using registry_inv_booted by (rule registry_inv_run)
  ultimately have "roomId \<in> fst ` set (routers ?m)" by (simp add: registry_inv_def)
  then show ?thesis by (simp add: map_has_def map_of_eq_None_iff)
qed

subsection \<open>Facts about the handlers\<close>

lemma join_ok_cases:
  assumes "(peerId, VideoRoomJoined caps eps) \<in> set (snd (handle s peerId (JoinVideoRoom roomId createRouter)))"
  obtains m1 where "getOrCreateRouter (sfu s) roomId createRouter = Inr (m1, caps)"
    and "fst (handle s peerId (JoinVideoRoom roomId createRouter)) =
         s\<lparr> joined := socket_join (joined s) peerId (video_room roomId), sfu := m1 \<rparr>"
  using assms
  by (auto simp: on_join_video_room_def getRouterCapabilities_def Let_def socket_emit_def socket_to_emit_def
      split: sum.splits)

lemma getOrCreateRouter_has:
  "getOrCreateRouter m roomId createRouter = Inr (m1, router) \<Longrightarrow> map_of (routers m1) roomId = Some router"
  by (auto simp: getOrCreateRouter_def update_conv' split: option.splits list.splits sum.splits)

lemma getOrCreateRouter_new_room:
  "getOrCreateRouter m roomId createRouter = Inr (m1, router) \<Longrightarrow> map_of (routers m) roomId = None \<Longrightarrow>
   map_of (rooms m1) roomId = Some \<lparr> r_router = router, r_peers = [] \<rparr>"
  by (auto simp: getOrCreateRouter_def update_conv' split: option.splits list.splits sum.splits)

lemma join_room_peers:
  assumes "getOrCreateRouter m roomId createRouter = Inr (m1, router)"
  shows "room_peers m1 r = (if r = roomId \<and> \<not> map_has (routers m) roomId then [] else room_peers m r)"
  using assms
  by (auto simp: getOrCreateRouter_def room_peers_def map_has_def update_conv'
      split: option.splits list.splits sum.splits)

lemma join_failed_state:
  "getOrCreateRouter (sfu s) roomId createRouter = Inl e \<Longrightarrow>
   sfu (fst (handle s peerId (JoinVideoRoom roomId createRouter))) = sfu s"
  by (simp add: on_join_video_room_def getRouterCapabilities_def Let_def)

lemma join_state:
  "getOrCreateRouter (sfu s) roomId createRouter = Inr (m1, router) \<Longrightarrow>
   sfu (fst (handle s peerId (JoinVideoRoom roomId createRouter))) = m1"
  by (simp add: on_join_video_room_def getRouterCapabilities_def Let_def)

lemma connect_transport_state: "fst (handle s peerId (ConnectTransport transportId connect)) = s"
  by (simp add: on_connect_transport_def split: sum.splits)

lemma closeProducer_consumers_clean:
  assumes "map_of (producers m) producerId = Some producerInfo"
    and "(k, v) \<in> set (consumers (closeProducer m producerId))"
  shows "c_producerId v \<noteq> producerId"
  using assms delete_matching_clean [of k v "\<lambda>consumerInfo. c_producerId consumerInfo = producerId" "consumers m"]
  by (simp add: closeProducer_def Let_def)

lemma closeProducer_consumers_filter:
  assumes "map_of (producers m) producerId = Some producerInfo" "distinct (map fst (consumers m))"
  shows "consumers (closeProducer m producerId) = filter (\<lambda>(consumerId, consumerInfo). c_producerId consumerInfo \<noteq> producerId) (consumers m)"
  using assms by (simp add: closeProducer_def Let_def delete_matching_filter case_prod_unfold)

subsection \<open>The sample states\<close>

lemma booted_initialize: "initialize new_MediaRouter (Inr 0) = Inr (sfu booted)"
  by (simp add: initialize_def booted_def new_MediaRouter_def)

lemma two_joined_value:
  "two_joined = \<lparr> sfu = \<lparr> workers = [0], routers = [(''A'', 7)],
       transports =
         [(''t1'', \<lparr> t_peerId = ''p1'', t_roomId = ''A'', t_direction = ''send'' \<rparr>),
          (''t2'', \<lparr> t_peerId = ''p2'', t_roomId = ''A'', t_direction = ''send'' \<rparr>)],
       producers = [], consumers = [],
       rooms = [(''A'', \<lparr> r_router = 7, r_peers = [] \<rparr>)],
       listeners = [''p1'', ''p2''] \<rparr>,
     joined = [(''p1'', ''video-A''), (''p2'', ''video-A'')] \<rparr>"
  unfolding two_joined_def by code_simp

lemma both_producing_value:
  "both_producing = \<lparr> sfu = \<lparr> workers = [0], routers = [(''A'', 7)],
       transports =
         [(''t1'', \<lparr> t_peerId = ''p1'', t_roomId = ''A'', t_direction = ''send'' \<rparr>),
          (''t2'', \<lparr> t_peerId = ''p2'', t_roomId = ''A'', t_direction = ''send'' \<rparr>)],
       producers =
         [(''prod1'', \<lparr> p_peerId = ''p1'', p_roomId = ''A'', p_kind = ''video'' \<rparr>),
          (''prod2'', \<lparr> p_peerId = ''p2'', p_roomId = ''A'', p_kind = ''video'' \<rparr>)],
       consumers = [],
       rooms = [(''A'', \<lparr> r_router = 7, r_peers = [''p1'', ''p2''] \<rparr>)],
       listeners = [''p1'', ''p2''] \<rparr>,
     joined = [(''p1'', ''video-A''), (''p2'', ''video-A'')] \<rparr>"
  unfolding both_producing_def two_joined_value by code_simp

lemma consuming_value:
  "consuming = \<lparr> sfu = \<lparr> workers = [0], routers = [(''A'', 7)],
       transports =
         [(''t1'', \<lparr> t_peerId = ''p1'', t_roomId = ''A'', t_direction = ''send'' \<rparr>),
          (''t2'', \<lparr> t_peerId = ''p2'', t_roomId = ''A'', t_direction = ''send'' \<rparr>),
          (''t3'', \<lparr> t_peerId = ''p1'', t_roomId = ''A'', t_direction = ''recv'' \<rparr>),
          (''t4'', \<lparr> t_peerId = ''p2'', t_roomId = ''A'', t_direction = ''recv'' \<rparr>)],
       producers =
         [(''prod1'', \<lparr> p_peerId = ''p1'', p_roomId = ''A'', p_kind = ''video'' \<rparr>),
          (''prod2'', \<lparr> p_peerId = ''p2'', p_roomId = ''A'', p_kind = ''video'' \<rparr>)],
       consumers =
         [(''c1'', \<lparr> c_peerId = ''p1'', c_roomId = ''A'', c_producerId = ''prod2'' \<rparr>),
          (''c2'', \<lparr> c_peerId = ''p2'', c_roomId = ''A'', c_producerId = ''prod1'' \<rparr>)],
       rooms = [(''A'', \<lparr> r_router = 7, r_peers = [''p1'', ''p2''] \<rparr>)],
       listeners = [''p1'', ''p2''] \<rparr>,
     joined = [(''p1'', ''video-A''), (''p2'', ''video-A'')] \<rparr>"
  unfolding consuming_def both_producing_value by code_simp

lemma both_producing_run: "fst (run booted both_producing_events) = both_producing"
  unfolding both_producing_value both_producing_events_def by code_simp

section \<open>The claims\<close>

subsection \<open>C1: what a departure closes and announces\<close>

text \<open>
  C1, as stated, fails. In \<open>both_producing\<close> the producer \<open>prod2\<close> belongs to \<open>p2\<close> in
  room A, and \<open>p1\<close> is the other member; when \<open>p2\<close> sends \<open>leave-video-room\<close>, \<open>p1\<close>
  is sent \<open>peer-left\<close> and nothing else: no \<open>producer-closed\<close> for \<open>prod2\<close>.
\<close>

theorem leave_sends_no_producer_closed:
  "map_of (producers (sfu both_producing)) ''prod2''
     = Some \<lparr> p_peerId = ''p2'', p_roomId = ''A'', p_kind = ''video'' \<rparr>
   \<and> room_members (joined both_producing) (video_room ''A'') = [''p1'', ''p2'']
   \<and> snd (handle both_producing ''p2'' (LeaveVideoRoom ''A''))
       = [(''p1'', PeerLeft ''p2''), (''p2'', VideoRoomLeft ''A'')]
   \<and> (''p1'', ProducerClosed (Some ''p2'') ''prod2'')
       \<notin> set (snd (handle both_producing ''p2'' (LeaveVideoRoom ''A'')))"
  unfolding both_producing_value by code_simp

text \<open>
  C1, amended. On \<open>leave-video-room\<close> for a room, no producer owned by the departing
  peer in that room is left in the producer table, and the other producers stay: when the
  keys of the table are distinct, as the keys of a \<open>Map\<close> are, the table afterwards is the
  table before without the producers of the peer in the room. What is sent is one
  \<open>peer-left {peerId}\<close> to every other socket of the room and then the reply
  \<open>video-room-left\<close>: no \<open>producer-closed\<close> is sent.
\<close>

theorem leave_removes_producers_and_sends_peer_left:
  "(\<forall>(producerId, producerInfo) \<in> set (producers (sfu (fst (handle s peerId (LeaveVideoRoom roomId))))).
      \<not> (p_peerId producerInfo = peerId \<and> p_roomId producerInfo = roomId))
   \<and> (distinct (map fst (producers (sfu s))) \<longrightarrow>
        producers (sfu (fst (handle s peerId (LeaveVideoRoom roomId)))) =
        filter (\<lambda>(producerId, producerInfo). \<not> (p_peerId producerInfo = peerId \<and> p_roomId producerInfo = roomId))
          (producers (sfu s)))
   \<and> snd (handle s peerId (LeaveVideoRoom roomId)) =
       map (\<lambda>receiver. (receiver, PeerLeft peerId))
         (filter (\<lambda>receiver. receiver \<noteq> peerId) (room_members (joined s) (video_room roomId)))
       @ [(peerId, VideoRoomLeft roomId)]"
proof (intro conjI impI)
  show "\<forall>(producerId, producerInfo) \<in> set (producers (sfu (fst (handle s peerId (LeaveVideoRoom roomId))))).
      \<not> (p_peerId producerInfo = peerId \<and> p_roomId producerInfo = roomId)"
    by (auto simp: on_leave_video_room_def Let_def dest: leavePeer_producers_clean)
  show "snd (handle s peerId (LeaveVideoRoom roomId)) =
       map (\<lambda>receiver. (receiver, PeerLeft peerId))
         (filter (\<lambda>receiver. receiver \<noteq> peerId) (room_members (joined s) (video_room roomId)))
       @ [(peerId, VideoRoomLeft roomId)]"
    by (simp add: on_leave_video_room_def Let_def socket_to_emit_leave)
       (simp add: socket_to_emit_def socket_emit_def)
  assume "distinct (map fst (producers (sfu s)))"
  then show "producers (sfu (fst (handle s peerId (LeaveVideoRoom roomId)))) =
        filter (\<lambda>(producerId, producerInfo). \<not> (p_peerId producerInfo = peerId \<and> p_roomId producerInfo = roomId))
          (producers (sfu s))"
    by (simp add: on_leave_video_room_def Let_def leavePeer_producers_filter)
qed

text \<open>
  The amended C1 at a concrete state: \<open>p2\<close> leaves the room of \<open>consuming\<close>; only the
  producer of \<open>p1\<close> is left, and \<open>p1\<close> is sent \<open>peer-left\<close>.
\<close>

theorem leave_removes_producers_witness:
  "distinct (map fst (producers (sfu consuming)))
   \<and> producers (sfu consuming)
     = [(''prod1'', \<lparr> p_peerId = ''p1'', p_roomId = ''A'', p_kind = ''video'' \<rparr>),
        (''prod2'', \<lparr> p_peerId = ''p2'', p_roomId = ''A'', p_kind = ''video'' \<rparr>)]
   \<and> producers (sfu (fst (handle consuming ''p2'' (LeaveVideoRoom ''A''))))
     = [(''prod1'', \<lparr> p_peerId = ''p1'', p_roomId = ''A'', p_kind = ''video'' \<rparr>)]
   \<and> snd (handle consuming ''p2'' (LeaveVideoRoom ''A''))
       = [(''p1'', PeerLeft ''p2''), (''p2'', VideoRoomLeft ''A'')]"
proof -
  have d: "distinct (map fst (producers (sfu consuming)))"
    by (simp add: consuming_value)
  have p: "producers (sfu consuming)
     = [(''prod1'', \<lparr> p_peerId = ''p1'', p_roomId = ''A'', p_kind = ''video'' \<rparr>),
        (''prod2'', \<lparr> p_peerId = ''p2'', p_roomId = ''A'', p_kind = ''video'' \<rparr>)]"
    by (simp add: consuming_value)
  have r: "room_members (joined consuming) (video_room ''A'') = [''p1'', ''p2'']"
    by (simp add: consuming_value room_members_def video_room_def)
  from leave_removes_producers_and_sends_peer_left [of consuming "''p2''" "''A''"] d
  have "producers (sfu (fst (handle consuming ''p2'' (LeaveVideoRoom ''A'')))) =
        filter (\<lambda>(producerId, producerInfo). \<not> (p_peerId producerInfo = ''p2'' \<and> p_roomId producerInfo = ''A''))
          (producers (sfu consuming))
     \<and> snd (handle consuming ''p2'' (LeaveVideoRoom ''A'')) =
       map (\<lambda>receiver. (receiver, PeerLeft ''p2''))
         (filter (\<lambda>receiver. receiver \<noteq> ''p2'') (room_members (joined consuming) (video_room ''A'')))
       @ [(''p2'', VideoRoomLeft ''A'')]"
    by blast
  then show ?thesis unfolding p r using d p by simp
qed

subsection \<open>C2: who is told of a new producer\<close>

text \<open>
  C2 at a concrete input. Both \<open>p1\<close> and \<open>p2\<close> have connected and joined room A, so the
  \<open>newProducer\<close> event has two listeners. When \<open>p1\<close> creates a producer, the listener
  of \<open>p1\<close> tells \<open>p2\<close>, the listener of \<open>p2\<close> tells \<open>p1\<close>, and the handler tells
  \<open>p2\<close> again: the originator receives \<open>new-producer-available\<close> for its own producer,
  and the other member receives it twice.
\<close>

theorem new_producer_echoed_and_duplicated:
  "snd (handle two_joined ''p1'' (CreateProducer ''t1'' ''video'' ''A'' (Inr ''prod1'')))
     = [(''p2'', NewProducerAvailable ''p1'' ''prod1'' ''video''),
        (''p1'', NewProducerAvailable ''p1'' ''prod1'' ''video''),
        (''p1'', ProducerCreated ''prod1'' ''video''),
        (''p2'', NewProducerAvailable ''p1'' ''prod1'' ''video'')]"
  unfolding two_joined_value by code_simp

subsection \<open>C3: joining and the member set\<close>

text \<open>
  C3, as stated, fails. After the server boots, \<open>p1\<close> connects and joins room A; the join
  succeeds (\<open>video-room-joined\<close>), and room A exists with an empty member set.
\<close>

theorem joined_peer_not_in_member_set:
  "snd (run booted [(''p1'', Connection), (''p1'', JoinVideoRoom ''A'' (Inr 7))])
     = [(''p1'', VideoRoomJoined 7 [])]
   \<and> map_of (rooms (sfu (fst (run booted [(''p1'', Connection), (''p1'', JoinVideoRoom ''A'' (Inr 7))])))) ''A''
     = Some \<lparr> r_router = 7, r_peers = [] \<rparr>"
  by code_simp

text \<open>
  C3, amended. After a successful \<open>join-video-room\<close> for room R by peer P, R has a
  router and P is in the Socket.IO room \<open>video-R\<close>, but the join adds nobody to any member
  set: the member set of every room is what it was before, but for R when R had no router,
  whose member set is then empty. So P is in the member set of R afterwards only if R had
  a router and P was in it before; and no join, successful or not, adds a member to any
  room. It is a successful \<open>create-producer\<close> that puts the owner of the transport into
  the member set of the transport's room, when that room exists. In every state the
  server reaches from boot, a room with a non-empty member set has a router; a room that
  has a router can have an empty member set.
\<close>

theorem join_adds_no_member:
  "((peerId, VideoRoomJoined caps eps) \<in> set (snd (handle s peerId (JoinVideoRoom roomId createRouter))) \<longrightarrow>
      map_has (routers (sfu (fst (handle s peerId (JoinVideoRoom roomId createRouter))))) roomId
      \<and> peerId \<in> set (room_members (joined (fst (handle s peerId (JoinVideoRoom roomId createRouter)))) (video_room roomId))
      \<and> room_peers (sfu (fst (handle s peerId (JoinVideoRoom roomId createRouter)))) r
          = (if r = roomId \<and> \<not> map_has (routers (sfu s)) roomId then [] else room_peers (sfu s) r)
      \<and> (peerId \<in> set (room_peers (sfu (fst (handle s peerId (JoinVideoRoom roomId createRouter)))) roomId)
           \<longrightarrow> map_has (routers (sfu s)) roomId \<and> peerId \<in> set (room_peers (sfu s) roomId)))
   \<and> set (room_peers (sfu (fst (handle s peerId (JoinVideoRoom roomId createRouter)))) r)
        \<subseteq> set (room_peers (sfu s) r)
   \<and> (map_of (transports (sfu s)) transportId = Some transportInfo
        \<and> map_has (rooms (sfu s)) (t_roomId transportInfo) \<longrightarrow>
      t_peerId transportInfo
        \<in> set (room_peers (sfu (fst (handle s peerId (CreateProducer transportId kind roomId' (Inr producerId)))))
                 (t_roomId transportInfo)))
   \<and> (room_peers (sfu (fst (run booted evs))) roomId \<noteq> [] \<longrightarrow>
        map_has (routers (sfu (fst (run booted evs)))) roomId)"
proof -
  let ?after = "fst (handle s peerId (JoinVideoRoom roomId createRouter))"
  have peers: "room_peers (sfu ?after) q
      = (if q = roomId \<and> \<not> map_has (routers (sfu s)) roomId then [] else room_peers (sfu s) q)"
    if g: "getOrCreateRouter (sfu s) roomId createRouter = Inr (m1, x)" for m1 x q
    using join_room_peers [OF g] join_state [OF g] by simp
  have join: "map_has (routers (sfu ?after)) roomId
      \<and> peerId \<in> set (room_members (joined ?after) (video_room roomId))
      \<and> room_peers (sfu ?after) r
          = (if r = roomId \<and> \<not> map_has (routers (sfu s)) roomId then [] else room_peers (sfu s) r)
      \<and> (peerId \<in> set (room_peers (sfu ?after) roomId)
           \<longrightarrow> map_has (routers (sfu s)) roomId \<and> peerId \<in> set (room_peers (sfu s) roomId))"
    if ok: "(peerId, VideoRoomJoined caps eps) \<in> set (snd (handle s peerId (JoinVideoRoom roomId createRouter)))"
  proof -
    from ok obtain m1 where g: "getOrCreateRouter (sfu s) roomId createRouter = Inr (m1, caps)"
      and st: "?after = s\<lparr> joined := socket_join (joined s) peerId (video_room roomId), sfu := m1 \<rparr>"
      by (rule join_ok_cases)
    have "map_has (routers m1) roomId"
      using getOrCreateRouter_has [OF g] by (simp add: map_has_def)
    then have a: "map_has (routers (sfu ?after)) roomId" unfolding st by simp
    have "peerId \<in> set (room_members (socket_join (joined s) peerId (video_room roomId)) (video_room roomId))"
      by (auto simp: socket_join_def set_add_def room_members_def image_iff)
    then have b: "peerId \<in> set (room_members (joined ?after) (video_room roomId))" unfolding st by simp
    have c: "room_peers (sfu ?after) r
          = (if r = roomId \<and> \<not> map_has (routers (sfu s)) roomId then [] else room_peers (sfu s) r)"
      using g by (rule peers)
    have d: "peerId \<in> set (room_peers (sfu ?after) roomId)
           \<longrightarrow> map_has (routers (sfu s)) roomId \<and> peerId \<in> set (room_peers (sfu s) roomId)"
      unfolding peers [OF g] by (simp split: if_splits)
    from a b c d show ?thesis by blast
  qed
  have subset: "set (room_peers (sfu ?after) r) \<subseteq> set (room_peers (sfu s) r)"
  proof (cases "getOrCreateRouter (sfu s) roomId createRouter")
    case (Inl e)
    from join_failed_state [OF Inl, of peerId] show ?thesis by simp
  next
    case (Inr p)
    obtain m1 x where "p = (m1, x)" by (cases p)
    with Inr have "getOrCreateRouter (sfu s) roomId createRouter = Inr (m1, x)" by simp
    from peers [OF this, of r] show ?thesis by (simp split: if_splits)
  qed
  have produce: "t_peerId transportInfo
        \<in> set (room_peers (sfu (fst (handle s peerId (CreateProducer transportId kind roomId' (Inr producerId)))))
                 (t_roomId transportInfo))"
    if "map_of (transports (sfu s)) transportId = Some transportInfo \<and> map_has (rooms (sfu s)) (t_roomId transportInfo)"
    using that
    by (auto simp: on_create_producer_def createProducer_def Let_def map_has_def room_peers_def
          update_conv' set_add_def)
  have live: "map_has (routers (sfu (fst (run booted evs)))) roomId"
    if "room_peers (sfu (fst (run booted evs))) roomId \<noteq> []"
    using that by (rule member_set_has_router)
  from join subset produce live show ?thesis by blast
qed

text \<open>
  The amended C3 at concrete states: \<open>p1\<close>, a member of room A in \<open>both_producing\<close>, joins
  A again and the member set stays \<open>p1\<close>, \<open>p2\<close>; in \<open>two_joined\<close>, where the member set
  of A is empty, the first producer of \<open>p1\<close> makes \<open>p1\<close> a member; and room A, reached by
  the events of \<open>both_producing_events\<close>, has members and a router.
\<close>

theorem join_adds_no_member_witness:
  "(''p1'', VideoRoomJoined 7 [(''prod2'', ''p2'', ''video'')])
     \<in> set (snd (handle both_producing ''p1'' (JoinVideoRoom ''A'' (Inr 9))))
   \<and> map_has (routers (sfu (fst (handle both_producing ''p1'' (JoinVideoRoom ''A'' (Inr 9)))))) ''A''
   \<and> ''p1'' \<in> set (room_members (joined (fst (handle both_producing ''p1'' (JoinVideoRoom ''A'' (Inr 9))))) (video_room ''A''))
   \<and> room_peers (sfu both_producing) ''A'' = [''p1'', ''p2'']
   \<and> room_peers (sfu (fst (handle both_producing ''p1'' (JoinVideoRoom ''A'' (Inr 9))))) ''A'' = [''p1'', ''p2'']
   \<and> map_of (transports (sfu two_joined)) ''t1''
       = Some \<lparr> t_peerId = ''p1'', t_roomId = ''A'', t_direction = ''send'' \<rparr>
   \<and> map_has (rooms (sfu two_joined)) ''A''
   \<and> room_peers (sfu two_joined) ''A'' = []
   \<and> ''p1'' \<in> set (room_peers (sfu (fst (handle two_joined ''p1'' (CreateProducer ''t1'' ''video'' ''A'' (Inr ''prod1''))))) ''A'')
   \<and> room_peers (sfu (fst (run booted both_producing_events))) ''A'' \<noteq> []
   \<and> map_has (routers (sfu (fst (run booted both_producing_events)))) ''A''"
proof -
  have ok: "(''p1'', VideoRoomJoined 7 [(''prod2'', ''p2'', ''video'')])
     \<in> set (snd (handle both_producing ''p1'' (JoinVideoRoom ''A'' (Inr 9))))"
    by (simp add: both_producing_value sfu_defs)
  have before: "room_peers (sfu both_producing) ''A'' = [''p1'', ''p2'']"
    by (simp add: both_producing_value room_peers_def)
  have has: "map_has (routers (sfu both_producing)) ''A''"
    by (simp add: both_producing_value map_has_def)
  have t: "map_of (transports (sfu two_joined)) ''t1''
       = Some \<lparr> t_peerId = ''p1'', t_roomId = ''A'', t_direction = ''send'' \<rparr>"
    by (simp add: two_joined_value)
  have r: "map_has (rooms (sfu two_joined)) ''A''"
    by (simp add: two_joined_value map_has_def)
  have e: "room_peers (sfu two_joined) ''A'' = []"
    by (simp add: two_joined_value room_peers_def)
  have ne: "room_peers (sfu (fst (run booted both_producing_events))) ''A'' \<noteq> []"
    by (simp add: both_producing_run before)
  note join = join_adds_no_member [of "''p1''" 7 "[(''prod2'', ''p2'', ''video'')]" both_producing "''A''" "Inr 9"
      "''A''" "''t1''" "\<lparr> t_peerId = ''p1'', t_roomId = ''A'', t_direction = ''send'' \<rparr>" "''video''" "''A''" "''prod1''"
      both_producing_events]
  note produce = join_adds_no_member [of "''p1''" 7 "[(''prod2'', ''p2'', ''video'')]" two_joined "''A''" "Inr 9"
      "''A''" "''t1''" "\<lparr> t_peerId = ''p1'', t_roomId = ''A'', t_direction = ''send'' \<rparr>" "''video''" "''A''" "''prod1''"
      both_producing_events]
  from join ok have j: "map_has (routers (sfu (fst (handle both_producing ''p1'' (JoinVideoRoom ''A'' (Inr 9)))))) ''A''
     \<and> ''p1'' \<in> set (room_members (joined (fst (handle both_producing ''p1'' (JoinVideoRoom ''A'' (Inr 9))))) (video_room ''A''))
     \<and> room_peers (sfu (fst (handle both_producing ''p1'' (JoinVideoRoom ''A'' (Inr 9))))) ''A''
        = (if ''A'' = ''A'' \<and> \<not> map_has (routers (sfu both_producing)) ''A'' then [] else room_peers (sfu both_producing) ''A'')"
    by blast
  with has before have after: "room_peers (sfu (fst (handle both_producing ''p1'' (JoinVideoRoom ''A'' (Inr 9))))) ''A'' = [''p1'', ''p2'']"
    by simp
  from produce t r have p: "''p1'' \<in> set (room_peers (sfu (fst (handle two_joined ''p1'' (CreateProducer ''t1'' ''video'' ''A'' (Inr ''prod1''))))) ''A'')"
    by simp
  from join ne have x: "map_has (routers (sfu (fst (run booted both_producing_events)))) ''A''" by blast
  from ok j before after t r e p ne x show ?thesis by blast
qed

subsection \<open>C4: ownership\<close>

text \<open>
  C4, as stated, fails. In \<open>both_producing\<close> the producer \<open>prod1\<close> belongs to \<open>p1\<close>; a
  \<open>close-producer\<close> for it from \<open>p2\<close> is answered with \<open>producer-closed\<close>, not with an
  error, and removes the producer.
\<close>

theorem foreign_close_producer_succeeds:
  "map_of (producers (sfu both_producing)) ''prod1''
     = Some \<lparr> p_peerId = ''p1'', p_roomId = ''A'', p_kind = ''video'' \<rparr>
   \<and> snd (handle both_producing ''p2'' (CloseProducer ''prod1'' ''A''))
     = [(''p1'', ProducerClosed (Some ''p2'') ''prod1''), (''p2'', ProducerClosed None ''prod1'')]
   \<and> map_of (producers (sfu (fst (handle both_producing ''p2'' (CloseProducer ''prod1'' ''A''))))) ''prod1'' = None"
  unfolding both_producing_value by code_simp

text \<open>
  C4, amended. The handlers of \<open>connect-transport\<close>, \<open>create-producer\<close>,
  \<open>close-producer\<close>, \<open>resume-consumer\<close> and \<open>pause-consumer\<close> check no ownership.
  The state of the server after such an event is the same whichever peer issues it, and
  the event succeeds for every issuer: \<open>close-producer\<close> naming a producer of the table
  removes it and replies \<open>producer-closed {producerId}\<close>; \<open>connect-transport\<close> on a
  transport of the table that the engine connects replies \<open>transport-connected\<close>;
  \<open>resume-consumer\<close> and \<open>pause-consumer\<close> on a consumer of the table that the engine
  resumes or pauses reply \<open>consumer-resumed\<close> and \<open>consumer-paused\<close>;
  \<open>create-producer\<close> on a transport of the table, when the engine returns an id, replies
  \<open>producer-created\<close> to the issuer and records the producer for the owner of the
  transport. For \<open>connect-transport\<close>, \<open>resume-consumer\<close> and \<open>pause-consumer\<close> the
  message sent is the same for every issuer, whatever the engine answers.
\<close>

theorem mutation_ignores_the_issuer:
  "(mutates_resource ev \<longrightarrow> fst (handle s peerId ev) = fst (handle s otherPeerId ev))
   \<and> (map_has (producers (sfu s)) producerId \<longrightarrow>
        \<not> map_has (producers (sfu (fst (handle s peerId (CloseProducer producerId roomId))))) producerId
        \<and> (peerId, ProducerClosed None producerId) \<in> set (snd (handle s peerId (CloseProducer producerId roomId))))
   \<and> (map_has (transports (sfu s)) transportId \<longrightarrow>
        handle s peerId (ConnectTransport transportId (Inr ())) = (s, [(peerId, TransportConnected transportId)]))
   \<and> (map_has (consumers (sfu s)) consumerId \<longrightarrow>
        handle s peerId (ResumeConsumer consumerId (Inr ())) = (s, [(peerId, ConsumerResumed consumerId)])
        \<and> handle s peerId (PauseConsumer consumerId (Inr ())) = (s, [(peerId, ConsumerPaused consumerId)]))
   \<and> (map_of (transports (sfu s)) transportId = Some transportInfo \<longrightarrow>
        (peerId, ProducerCreated newId kind)
          \<in> set (snd (handle s peerId (CreateProducer transportId kind roomId (Inr newId))))
        \<and> map_of (producers (sfu (fst (handle s peerId (CreateProducer transportId kind roomId (Inr newId)))))) newId
          = Some \<lparr> p_peerId = t_peerId transportInfo, p_roomId = t_roomId transportInfo, p_kind = kind \<rparr>)
   \<and> map snd (snd (handle s peerId (ConnectTransport transportId connect)))
       = map snd (snd (handle s otherPeerId (ConnectTransport transportId connect)))
   \<and> map snd (snd (handle s peerId (ResumeConsumer consumerId resume)))
       = map snd (snd (handle s otherPeerId (ResumeConsumer consumerId resume)))
   \<and> map snd (snd (handle s peerId (PauseConsumer consumerId pause)))
       = map snd (snd (handle s otherPeerId (PauseConsumer consumerId pause)))"
proof -
  have same: "fst (handle s peerId ev) = fst (handle s otherPeerId ev)" if "mutates_resource ev"
    using that
    by (cases ev)
       (auto simp: on_connect_transport_def on_create_producer_def on_close_producer_def
          on_resume_consumer_def on_pause_consumer_def Let_def split: sum.splits)
  have close: "\<not> map_has (producers (sfu (fst (handle s peerId (CloseProducer producerId roomId))))) producerId
        \<and> (peerId, ProducerClosed None producerId) \<in> set (snd (handle s peerId (CloseProducer producerId roomId)))"
    by (simp add: on_close_producer_def Let_def map_has_def closeProducer_producers delete_conv' socket_emit_def)
  have connect: "handle s peerId (ConnectTransport transportId (Inr ())) = (s, [(peerId, TransportConnected transportId)])"
    if "map_has (transports (sfu s)) transportId"
    using that by (auto simp: map_has_def on_connect_transport_def connectTransport_def socket_emit_def)
  have consumer: "handle s peerId (ResumeConsumer consumerId (Inr ())) = (s, [(peerId, ConsumerResumed consumerId)])
        \<and> handle s peerId (PauseConsumer consumerId (Inr ())) = (s, [(peerId, ConsumerPaused consumerId)])"
    if "map_has (consumers (sfu s)) consumerId"
    using that
    by (auto simp: map_has_def on_resume_consumer_def resumeConsumer_def on_pause_consumer_def
          pauseConsumer_def socket_emit_def)
  have produce: "(peerId, ProducerCreated newId kind)
          \<in> set (snd (handle s peerId (CreateProducer transportId kind roomId (Inr newId))))
        \<and> map_of (producers (sfu (fst (handle s peerId (CreateProducer transportId kind roomId (Inr newId)))))) newId
          = Some \<lparr> p_peerId = t_peerId transportInfo, p_roomId = t_roomId transportInfo, p_kind = kind \<rparr>"
    if "map_of (transports (sfu s)) transportId = Some transportInfo"
    using that
    by (auto simp: on_create_producer_def createProducer_def socket_emit_def Let_def update_conv'
        split: option.splits)
  have m1: "map snd (snd (handle s peerId (ConnectTransport transportId connect)))
       = map snd (snd (handle s otherPeerId (ConnectTransport transportId connect)))"
    by (simp add: on_connect_transport_def socket_emit_def split: sum.splits)
  have m2: "map snd (snd (handle s peerId (ResumeConsumer consumerId resume)))
       = map snd (snd (handle s otherPeerId (ResumeConsumer consumerId resume)))"
    by (simp add: on_resume_consumer_def socket_emit_def split: sum.splits)
  have m3: "map snd (snd (handle s peerId (PauseConsumer consumerId pause)))
       = map snd (snd (handle s otherPeerId (PauseConsumer consumerId pause)))"
    by (simp add: on_pause_consumer_def socket_emit_def split: sum.splits)
  from same close connect consumer produce m1 m2 m3 show ?thesis by blast
qed

text \<open>
  The amended C4 at a concrete state: in \<open>consuming\<close> the producer \<open>prod1\<close>, the
  transport \<open>t1\<close> and the consumer \<open>c1\<close> belong to \<open>p1\<close>, and each event is issued by
  \<open>p2\<close>.
\<close>

theorem mutation_ignores_the_issuer_witness:
  "mutates_resource (CloseProducer ''prod1'' ''A'')
   \<and> map_of (producers (sfu consuming)) ''prod1''
       = Some \<lparr> p_peerId = ''p1'', p_roomId = ''A'', p_kind = ''video'' \<rparr>
   \<and> map_of (transports (sfu consuming)) ''t1''
       = Some \<lparr> t_peerId = ''p1'', t_roomId = ''A'', t_direction = ''send'' \<rparr>
   \<and> map_of (consumers (sfu consuming)) ''c1''
       = Some \<lparr> c_peerId = ''p1'', c_roomId = ''A'', c_producerId = ''prod2'' \<rparr>
   \<and> fst (handle consuming ''p2'' (CloseProducer ''prod1'' ''A''))
       = fst (handle consuming ''p1'' (CloseProducer ''prod1'' ''A''))
   \<and> \<not> map_has (producers (sfu (fst (handle consuming ''p2'' (CloseProducer ''prod1'' ''A''))))) ''prod1''
   \<and> (''p2'', ProducerClosed None ''prod1'') \<in> set (snd (handle consuming ''p2'' (CloseProducer ''prod1'' ''A'')))
   \<and> handle consuming ''p2'' (ConnectTransport ''t1'' (Inr ())) = (consuming, [(''p2'', TransportConnected ''t1'')])
   \<and> handle consuming ''p2'' (ResumeConsumer ''c1'' (Inr ())) = (consuming, [(''p2'', ConsumerResumed ''c1'')])
   \<and> handle consuming ''p2'' (PauseConsumer ''c1'' (Inr ())) = (consuming, [(''p2'', ConsumerPaused ''c1'')])
   \<and> (''p2'', ProducerCreated ''prod9'' ''audio'')
        \<in> set (snd (handle consuming ''p2'' (CreateProducer ''t1'' ''audio'' ''A'' (Inr ''prod9''))))
   \<and> map_of (producers (sfu (fst (handle consuming ''p2'' (CreateProducer ''t1'' ''audio'' ''A'' (Inr ''prod9'')))))) ''prod9''
        = Some \<lparr> p_peerId = ''p1'', p_roomId = ''A'', p_kind = ''audio'' \<rparr>"
proof -
  have m: "mutates_resource (CloseProducer ''prod1'' ''A'')" by simp
  have p: "map_of (producers (sfu consuming)) ''prod1''
       = Some \<lparr> p_peerId = ''p1'', p_roomId = ''A'', p_kind = ''video'' \<rparr>"
    by (simp add: consuming_value)
  have t: "map_of (transports (sfu consuming)) ''t1''
       = Some \<lparr> t_peerId = ''p1'', t_roomId = ''A'', t_direction = ''send'' \<rparr>"
    by (simp add: consuming_value)
  have c: "map_of (consumers (sfu consuming)) ''c1''
       = Some \<lparr> c_peerId = ''p1'', c_roomId = ''A'', c_producerId = ''prod2'' \<rparr>"
    by (simp add: consuming_value)
  have hp: "map_has (producers (sfu consuming)) ''prod1''" using p by (simp add: map_has_def)
  have ht: "map_has (transports (sfu consuming)) ''t1''" using t by (simp add: map_has_def)
  have hc: "map_has (consumers (sfu consuming)) ''c1''" using c by (simp add: map_has_def)
  note inst = mutation_ignores_the_issuer [of "CloseProducer ''prod1'' ''A''" consuming "''p2''" "''p1''"
      "''prod1''" "''A''" "''t1''" "''c1''" "\<lparr> t_peerId = ''p1'', t_roomId = ''A'', t_direction = ''send'' \<rparr>"
      "''prod9''" "''audio''" "Inr ()" "Inr ()" "Inr ()", unfolded transportInfo.select_convs]
  from inst m hp ht hc p t c show ?thesis by blast
qed

subsection \<open>C5: connecting a transport twice\<close>

text \<open>
  C5, as stated, fails. In \<open>two_joined\<close>, \<open>p1\<close> connects its transport \<open>t1\<close> and the
  engine accepts; \<open>p1\<close> connects \<open>t1\<close> again and the engine throws. The second reply is
  \<open>transport-error\<close> with the error \<open>Failed to connect transport\<close>, which is not the code
  \<open>already-connected\<close>. Were the engine to accept the second call too, the second reply
  would be \<open>transport-connected\<close> again.
\<close>

theorem second_connect_is_not_already_connected:
  "map_has (transports (sfu two_joined)) ''t1''
   \<and> snd (run two_joined
       [(''p1'', ConnectTransport ''t1'' (Inr ())),
        (''p1'', ConnectTransport ''t1'' (Inl ''connect() already called''))])
     = [(''p1'', TransportConnected ''t1''),
        (''p1'', TransportError ''Failed to connect transport'' ''connect() already called'')]
   \<and> ''Failed to connect transport'' \<noteq> ''already-connected''
   \<and> snd (run two_joined
       [(''p1'', ConnectTransport ''t1'' (Inr ())),
        (''p1'', ConnectTransport ''t1'' (Inr ()))])
     = [(''p1'', TransportConnected ''t1''), (''p1'', TransportConnected ''t1'')]"
  unfolding two_joined_value by code_simp

text \<open>
  C5, amended. The server keeps no connection state. The first successful
  \<open>connect-transport\<close> on an existing transport replies \<open>transport-connected\<close> and
  changes no registry; a later \<open>connect-transport\<close> for the same transport id goes to the
  engine again and replies \<open>transport-connected\<close> when the engine accepts it, and
  otherwise \<open>transport-error\<close> with the error \<open>Failed to connect transport\<close> and the
  engine's message as details.
\<close>

theorem connect_transport_again:
  assumes "map_has (transports (sfu s)) transportId"
  shows "handle s peerId (ConnectTransport transportId (Inr ())) = (s, [(peerId, TransportConnected transportId)])
     \<and> handle (fst (handle s peerId (ConnectTransport transportId (Inr ())))) peerId (ConnectTransport transportId connect)
        = (s, [(peerId, case connect of
                          Inr _ \<Rightarrow> TransportConnected transportId
                        | Inl details \<Rightarrow> TransportError ''Failed to connect transport'' details)])"
  using assms
  by (auto simp: map_has_def on_connect_transport_def connectTransport_def socket_emit_def split: sum.splits)

text \<open>The amended C5 at a concrete state: the transport \<open>t1\<close> of \<open>two_joined\<close>.\<close>

theorem connect_transport_again_witness:
  "map_has (transports (sfu two_joined)) ''t1''
   \<and> handle two_joined ''p1'' (ConnectTransport ''t1'' (Inr ())) = (two_joined, [(''p1'', TransportConnected ''t1'')])
   \<and> handle (fst (handle two_joined ''p1'' (ConnectTransport ''t1'' (Inr ())))) ''p1''
        (ConnectTransport ''t1'' (Inl ''connect() already called''))
      = (two_joined, [(''p1'', TransportError ''Failed to connect transport'' ''connect() already called'')])"
proof -
  have h: "map_has (transports (sfu two_joined)) ''t1''"
    by (simp add: two_joined_value map_has_def)
  note again = connect_transport_again [OF h, of "''p1''" "Inl ''connect() already called''", unfolded sum.case]
  from again h show ?thesis by blast
qed

subsection \<open>C6: creating a producer before the transport is connected\<close>

text \<open>
  C6, as stated, fails. In \<open>two_joined\<close> no \<open>connect-transport\<close> was ever issued. When
  the engine accepts, a \<open>create-producer\<close> of \<open>p1\<close> on \<open>t1\<close> inserts the producer and
  is advertised; when the engine throws, the reply is \<open>producer-error\<close> with the error
  \<open>Failed to create producer\<close>, which is not the code \<open>not-connected\<close>.
\<close>

theorem create_producer_before_connect:
  "snd (handle two_joined ''p1'' (CreateProducer ''t1'' ''video'' ''A'' (Inr ''prod1'')))
     = [(''p2'', NewProducerAvailable ''p1'' ''prod1'' ''video''),
        (''p1'', NewProducerAvailable ''p1'' ''prod1'' ''video''),
        (''p1'', ProducerCreated ''prod1'' ''video''),
        (''p2'', NewProducerAvailable ''p1'' ''prod1'' ''video'')]
   \<and> producers (sfu (fst (handle two_joined ''p1'' (CreateProducer ''t1'' ''video'' ''A'' (Inr ''prod1'')))))
     = [(''prod1'', \<lparr> p_peerId = ''p1'', p_roomId = ''A'', p_kind = ''video'' \<rparr>)]
   \<and> snd (handle two_joined ''p1'' (CreateProducer ''t1'' ''video'' ''A'' (Inl ''rejected'')))
     = [(''p1'', ProducerError ''Failed to create producer'' ''rejected'')]
   \<and> ''Failed to create producer'' \<noteq> ''not-connected''"
  unfolding two_joined_value by code_simp

text \<open>
  C6, amended. A \<open>create-producer\<close> event is not checked against the connect handshake
  of its transport, of which the server keeps no record: earlier \<open>connect-transport\<close>
  events do not change its outcome. When the transport id is unknown or the engine's
  \<open>produce\<close> throws, it yields exactly one reply, \<open>producer-error\<close> with the error
  \<open>Failed to create producer\<close> and the thrown message as details, no fan-out and no
  change of the state; when the transport exists and the engine returns a producer id, it
  replies \<open>producer-created\<close>.
\<close>

theorem create_producer_failure:
  "(map_of (transports (sfu s)) transportId = None \<longrightarrow>
      handle s peerId (CreateProducer transportId kind roomId produce)
        = (s, [(peerId, ProducerError ''Failed to create producer'' (''Transport '' @ transportId @ '' not found''))]))
   \<and> (map_of (transports (sfu s)) transportId \<noteq> None \<longrightarrow>
      handle s peerId (CreateProducer transportId kind roomId (Inl details))
        = (s, [(peerId, ProducerError ''Failed to create producer'' details)])
      \<and> (peerId, ProducerCreated producerId kind)
          \<in> set (snd (handle s peerId (CreateProducer transportId kind roomId (Inr producerId)))))
   \<and> handle (fst (handle s otherPeerId (ConnectTransport transportId' connect))) peerId
        (CreateProducer transportId kind roomId produce)
       = handle s peerId (CreateProducer transportId kind roomId produce)"
proof (intro conjI impI)
  assume "map_of (transports (sfu s)) transportId = None"
  then show "handle s peerId (CreateProducer transportId kind roomId produce)
        = (s, [(peerId, ProducerError ''Failed to create producer'' (''Transport '' @ transportId @ '' not found''))])"
    by (simp add: on_create_producer_def createProducer_def socket_emit_def)
next
  assume "map_of (transports (sfu s)) transportId \<noteq> None"
  then show "handle s peerId (CreateProducer transportId kind roomId (Inl details))
        = (s, [(peerId, ProducerError ''Failed to create producer'' details)])"
    by (auto simp: on_create_producer_def createProducer_def socket_emit_def)
next
  assume "map_of (transports (sfu s)) transportId \<noteq> None"
  then show "(peerId, ProducerCreated producerId kind)
          \<in> set (snd (handle s peerId (CreateProducer transportId kind roomId (Inr producerId))))"
    by (auto simp: on_create_producer_def createProducer_def socket_emit_def Let_def)
next
  show "handle (fst (handle s otherPeerId (ConnectTransport transportId' connect))) peerId
        (CreateProducer transportId kind roomId produce)
       = handle s peerId (CreateProducer transportId kind roomId produce)"
    by (simp only: connect_transport_state)
qed

text \<open>
  The amended C6 at a concrete state: in \<open>two_joined\<close>, a transport id that does not
  exist, and the transport \<open>t1\<close> with an engine that throws and with one that returns.
\<close>

theorem create_producer_failure_witness:
  "map_of (transports (sfu two_joined)) ''t9'' = None
   \<and> handle two_joined ''p1'' (CreateProducer ''t9'' ''video'' ''A'' (Inr ''prod1''))
      = (two_joined, [(''p1'', ProducerError ''Failed to create producer'' ''Transport t9 not found'')])
   \<and> map_of (transports (sfu two_joined)) ''t1'' \<noteq> None
   \<and> handle two_joined ''p1'' (CreateProducer ''t1'' ''video'' ''A'' (Inl ''rejected''))
      = (two_joined, [(''p1'', ProducerError ''Failed to create producer'' ''rejected'')])
   \<and> (''p1'', ProducerCreated ''prod1'' ''video'')
        \<in> set (snd (handle two_joined ''p1'' (CreateProducer ''t1'' ''video'' ''A'' (Inr ''prod1''))))"
proof -
  have a: "map_of (transports (sfu two_joined)) ''t9'' = None"
    by (simp add: two_joined_value)
  have b: "map_of (transports (sfu two_joined)) ''t1'' \<noteq> None"
    by (simp add: two_joined_value)
  from create_producer_failure [of two_joined "''t9''" "''p1''" "''video''" "''A''" "Inr ''prod1''"] a
  have one: "handle two_joined ''p1'' (CreateProducer ''t9'' ''video'' ''A'' (Inr ''prod1''))
      = (two_joined, [(''p1'', ProducerError ''Failed to create producer'' ''Transport t9 not found'')])"
    by simp
  from create_producer_failure [of two_joined "''t1''" "''p1''" "''video''" "''A''" _ "''rejected''" "''prod1''"] b
  have two: "handle two_joined ''p1'' (CreateProducer ''t1'' ''video'' ''A'' (Inl ''rejected''))
      = (two_joined, [(''p1'', ProducerError ''Failed to create producer'' ''rejected'')])
     \<and> (''p1'', ProducerCreated ''prod1'' ''video'')
         \<in> set (snd (handle two_joined ''p1'' (CreateProducer ''t1'' ''video'' ''A'' (Inr ''prod1''))))"
    by blast
  from a b one two show ?thesis by blast
qed

subsection \<open>C7: leaving twice\<close>

text \<open>
  C7, as stated, fails. In \<open>two_joined\<close>, \<open>p1\<close> sends \<open>leave-video-room\<close> for room A
  twice; the second is answered like the first, with \<open>video-room-left\<close> (and \<open>peer-left\<close>
  to \<open>p2\<close>), not with an error.
\<close>

theorem second_leave_succeeds_again:
  "snd (run two_joined [(''p1'', LeaveVideoRoom ''A''), (''p1'', LeaveVideoRoom ''A'')])
     = [(''p2'', PeerLeft ''p1''), (''p1'', VideoRoomLeft ''A''),
        (''p2'', PeerLeft ''p1''), (''p1'', VideoRoomLeft ''A'')]"
  unfolding two_joined_value by code_simp

text \<open>
  C7, amended. The first \<open>leave-video-room {roomId: R}\<close> of a peer completes the leave:
  afterwards the peer is not in the Socket.IO room \<open>video-R\<close> nor in the member set of R,
  and no transport, producer or consumer of the peer in R is left; \<open>peer-left\<close> goes to
  the other sockets of the room and \<open>video-room-left\<close> to the peer. The leave is final: a
  second one from the same peer changes nothing in the state of the server. But it is
  answered exactly like the first, with \<open>video-room-left\<close> and the same \<open>peer-left\<close>
  messages, not with the error \<open>not-joined\<close>.
\<close>

theorem second_leave_repeats_the_first:
  "handle (fst (handle s peerId (LeaveVideoRoom roomId))) peerId (LeaveVideoRoom roomId)
     = handle s peerId (LeaveVideoRoom roomId)
   \<and> snd (handle s peerId (LeaveVideoRoom roomId)) =
       socket_to_emit (joined s) peerId (video_room roomId) (PeerLeft peerId)
       @ [(peerId, VideoRoomLeft roomId)]
   \<and> peerId \<notin> set (room_members (joined (fst (handle s peerId (LeaveVideoRoom roomId)))) (video_room roomId))
   \<and> peerId \<notin> set (room_peers (sfu (fst (handle s peerId (LeaveVideoRoom roomId)))) roomId)
   \<and> (\<forall>(transportId, transportInfo) \<in> set (transports (sfu (fst (handle s peerId (LeaveVideoRoom roomId))))).
        \<not> (t_peerId transportInfo = peerId \<and> t_roomId transportInfo = roomId))
   \<and> (\<forall>(producerId, producerInfo) \<in> set (producers (sfu (fst (handle s peerId (LeaveVideoRoom roomId))))).
        \<not> (p_peerId producerInfo = peerId \<and> p_roomId producerInfo = roomId))
   \<and> (\<forall>(consumerId, consumerInfo) \<in> set (consumers (sfu (fst (handle s peerId (LeaveVideoRoom roomId))))).
        \<not> (c_peerId consumerInfo = peerId \<and> c_roomId consumerInfo = roomId))"
proof -
  have st: "fst (handle s peerId (LeaveVideoRoom roomId)) =
      s\<lparr> joined := socket_leave (joined s) peerId (video_room roomId),
         sfu := leavePeer (sfu s) peerId roomId \<rparr>"
    by (simp add: on_leave_video_room_def Let_def)
  have "handle (fst (handle s peerId (LeaveVideoRoom roomId))) peerId (LeaveVideoRoom roomId)
     = handle s peerId (LeaveVideoRoom roomId)
   \<and> snd (handle s peerId (LeaveVideoRoom roomId)) =
       socket_to_emit (joined s) peerId (video_room roomId) (PeerLeft peerId)
       @ [(peerId, VideoRoomLeft roomId)]"
    by (simp add: on_leave_video_room_def Let_def socket_leave_idem leavePeer_idem socket_to_emit_leave socket_emit_def)
  moreover have "peerId \<notin> set (room_members (joined (fst (handle s peerId (LeaveVideoRoom roomId)))) (video_room roomId))"
    unfolding st by (simp add: socket_leave_members)
  moreover have "peerId \<notin> set (room_peers (sfu (fst (handle s peerId (LeaveVideoRoom roomId)))) roomId)"
    unfolding st by (simp add: leavePeer_room_peers)
  moreover have "\<forall>(transportId, transportInfo) \<in> set (transports (sfu (fst (handle s peerId (LeaveVideoRoom roomId))))).
        \<not> (t_peerId transportInfo = peerId \<and> t_roomId transportInfo = roomId)"
    unfolding st using leavePeer_transports_clean [of _ _ "sfu s" peerId roomId] by auto
  moreover have "\<forall>(producerId, producerInfo) \<in> set (producers (sfu (fst (handle s peerId (LeaveVideoRoom roomId))))).
        \<not> (p_peerId producerInfo = peerId \<and> p_roomId producerInfo = roomId)"
    unfolding st using leavePeer_producers_clean [of _ _ "sfu s" peerId roomId] by auto
  moreover have "\<forall>(consumerId, consumerInfo) \<in> set (consumers (sfu (fst (handle s peerId (LeaveVideoRoom roomId))))).
        \<not> (c_peerId consumerInfo = peerId \<and> c_roomId consumerInfo = roomId)"
    unfolding st using leavePeer_consumers_clean [of _ _ "sfu s" peerId roomId] by auto
  ultimately show ?thesis by blast
qed

text \<open>
  The amended C7 at a concrete state: \<open>p1\<close> leaves room A of \<open>consuming\<close> twice; what is
  left after the first leave is what \<open>p2\<close> owns.
\<close>

theorem second_leave_repeats_witness:
  "handle (fst (handle consuming ''p1'' (LeaveVideoRoom ''A''))) ''p1'' (LeaveVideoRoom ''A'')
     = handle consuming ''p1'' (LeaveVideoRoom ''A'')
   \<and> snd (handle consuming ''p1'' (LeaveVideoRoom ''A''))
     = [(''p2'', PeerLeft ''p1''), (''p1'', VideoRoomLeft ''A'')]
   \<and> room_members (joined consuming) (video_room ''A'') = [''p1'', ''p2'']
   \<and> room_members (joined (fst (handle consuming ''p1'' (LeaveVideoRoom ''A'')))) (video_room ''A'') = [''p2'']
   \<and> room_peers (sfu (fst (handle consuming ''p1'' (LeaveVideoRoom ''A'')))) ''A'' = [''p2'']
   \<and> transports (sfu (fst (handle consuming ''p1'' (LeaveVideoRoom ''A''))))
     = [(''t2'', \<lparr> t_peerId = ''p2'', t_roomId = ''A'', t_direction = ''send'' \<rparr>),
        (''t4'', \<lparr> t_peerId = ''p2'', t_roomId = ''A'', t_direction = ''recv'' \<rparr>)]
   \<and> producers (sfu (fst (handle consuming ''p1'' (LeaveVideoRoom ''A''))))
     = [(''prod2'', \<lparr> p_peerId = ''p2'', p_roomId = ''A'', p_kind = ''video'' \<rparr>)]
   \<and> consumers (sfu (fst (handle consuming ''p1'' (LeaveVideoRoom ''A'')))) = []"
  using second_leave_repeats_the_first [of consuming "''p1''" "''A''"]
  by (simp add: consuming_value sfu_defs room_peers_def)

subsection \<open>C8: two producers of one kind\<close>

text \<open>
  C8, as stated, fails. In \<open>both_producing\<close>, \<open>p1\<close> has the live video producer \<open>prod1\<close>;
  a second \<open>create-producer\<close> of kind video from \<open>p1\<close> is answered with
  \<open>producer-created\<close>, and the table then holds two video producers of \<open>p1\<close>.
\<close>

theorem second_video_producer_accepted:
  "map_of (producers (sfu both_producing)) ''prod1''
     = Some \<lparr> p_peerId = ''p1'', p_roomId = ''A'', p_kind = ''video'' \<rparr>
   \<and> (''p1'', ProducerCreated ''prod3'' ''video'')
       \<in> set (snd (handle both_producing ''p1'' (CreateProducer ''t1'' ''video'' ''A'' (Inr ''prod3''))))
   \<and> producers (sfu (fst (handle both_producing ''p1'' (CreateProducer ''t1'' ''video'' ''A'' (Inr ''prod3'')))))
     = [(''prod1'', \<lparr> p_peerId = ''p1'', p_roomId = ''A'', p_kind = ''video'' \<rparr>),
        (''prod2'', \<lparr> p_peerId = ''p2'', p_roomId = ''A'', p_kind = ''video'' \<rparr>),
        (''prod3'', \<lparr> p_peerId = ''p1'', p_roomId = ''A'', p_kind = ''video'' \<rparr>)]"
  unfolding both_producing_value by code_simp

text \<open>
  C8, amended. \<open>create-producer\<close> checks no (peer, kind) pair. Whenever the transport
  exists and the engine returns a producer id, the event replies \<open>producer-created\<close> and
  stores, under that id, a record with the transport's peer and room and the kind asked
  for; every record stored under another id stays as it was, whether or not the peer
  already has a live producer of that kind.
\<close>

theorem create_producer_inserts:
  assumes "map_of (transports (sfu s)) transportId = Some transportInfo"
  shows "map_of (producers (sfu (fst (handle s peerId (CreateProducer transportId kind roomId (Inr producerId)))))) producerId
       = Some \<lparr> p_peerId = t_peerId transportInfo, p_roomId = t_roomId transportInfo, p_kind = kind \<rparr>
   \<and> (\<forall>other. other \<noteq> producerId \<longrightarrow>
        map_of (producers (sfu (fst (handle s peerId (CreateProducer transportId kind roomId (Inr producerId)))))) other
        = map_of (producers (sfu s)) other)
   \<and> (peerId, ProducerCreated producerId kind)
        \<in> set (snd (handle s peerId (CreateProducer transportId kind roomId (Inr producerId))))"
  using assms
  by (auto simp: on_create_producer_def createProducer_def socket_emit_def Let_def update_conv'
      split: option.splits)

text \<open>The amended C8 at a concrete state: the second video producer of \<open>p1\<close>.\<close>

theorem create_producer_inserts_witness:
  "map_of (transports (sfu both_producing)) ''t1''
     = Some \<lparr> t_peerId = ''p1'', t_roomId = ''A'', t_direction = ''send'' \<rparr>
   \<and> map_of (producers (sfu (fst (handle both_producing ''p1'' (CreateProducer ''t1'' ''video'' ''A'' (Inr ''prod3'')))))) ''prod3''
       = Some \<lparr> p_peerId = ''p1'', p_roomId = ''A'', p_kind = ''video'' \<rparr>
   \<and> map_of (producers (sfu (fst (handle both_producing ''p1'' (CreateProducer ''t1'' ''video'' ''A'' (Inr ''prod3'')))))) ''prod1''
       = Some \<lparr> p_peerId = ''p1'', p_roomId = ''A'', p_kind = ''video'' \<rparr>
   \<and> (''p1'', ProducerCreated ''prod3'' ''video'')
        \<in> set (snd (handle both_producing ''p1'' (CreateProducer ''t1'' ''video'' ''A'' (Inr ''prod3''))))"
proof -
  have h: "map_of (transports (sfu both_producing)) ''t1''
     = Some \<lparr> t_peerId = ''p1'', t_roomId = ''A'', t_direction = ''send'' \<rparr>"
    by (simp add: both_producing_value)
  have p: "map_of (producers (sfu both_producing)) ''prod1''
     = Some \<lparr> p_peerId = ''p1'', p_roomId = ''A'', p_kind = ''video'' \<rparr>"
    by (simp add: both_producing_value)
  have ne: "''prod1'' \<noteq> ''prod3''" by simp
  from create_producer_inserts [OF h, of "''p1''" "''video''" "''A''" "''prod3''"] h p ne
  show ?thesis by simp
qed

subsection \<open>C9: closing a producer closes its consumers\<close>

text \<open>
  C9. A \<open>close-producer\<close> event naming a producer of the table removes the producer,
  and afterwards no consumer record has the closed producer's id as its \<open>producerId\<close>.
  What is removed from the consumer table is exactly these records: when the keys of the
  table are distinct, as the keys of a \<open>Map\<close> are, the table afterwards is the table
  before without the consumers of the closed producer.
\<close>

theorem close_producer_closes_its_consumers:
  assumes "map_of (producers (sfu s)) producerId = Some producerInfo"
  shows "map_of (producers (sfu (fst (handle s peerId (CloseProducer producerId roomId))))) producerId = None
    \<and> (\<forall>(consumerId, consumerInfo) \<in> set (consumers (sfu (fst (handle s peerId (CloseProducer producerId roomId))))).
         c_producerId consumerInfo \<noteq> producerId)
    \<and> (distinct (map fst (consumers (sfu s))) \<longrightarrow>
         consumers (sfu (fst (handle s peerId (CloseProducer producerId roomId))))
         = filter (\<lambda>(consumerId, consumerInfo). c_producerId consumerInfo \<noteq> producerId) (consumers (sfu s)))"
proof -
  have st: "sfu (fst (handle s peerId (CloseProducer producerId roomId))) = closeProducer (sfu s) producerId"
    by (simp add: on_close_producer_def Let_def)
  have "map_of (producers (closeProducer (sfu s) producerId)) producerId = None"
    by (simp add: closeProducer_producers delete_conv')
  moreover have "\<forall>(consumerId, consumerInfo) \<in> set (consumers (closeProducer (sfu s) producerId)).
         c_producerId consumerInfo \<noteq> producerId"
    using closeProducer_consumers_clean [OF assms] by blast
  moreover have "distinct (map fst (consumers (sfu s))) \<longrightarrow>
         consumers (closeProducer (sfu s) producerId)
         = filter (\<lambda>(consumerId, consumerInfo). c_producerId consumerInfo \<noteq> producerId) (consumers (sfu s))"
    using closeProducer_consumers_filter [OF assms] by blast
  ultimately show ?thesis unfolding st by blast
qed

text \<open>
  C9 at a concrete state: in \<open>consuming\<close>, \<open>p1\<close> closes \<open>prod1\<close>; the consumer \<open>c2\<close> of
  \<open>prod1\<close> goes and the consumer \<open>c1\<close> of \<open>prod2\<close> stays.
\<close>

theorem close_producer_closes_its_consumers_witness:
  "map_of (producers (sfu consuming)) ''prod1''
     = Some \<lparr> p_peerId = ''p1'', p_roomId = ''A'', p_kind = ''video'' \<rparr>
   \<and> distinct (map fst (consumers (sfu consuming)))
   \<and> map_of (producers (sfu (fst (handle consuming ''p1'' (CloseProducer ''prod1'' ''A''))))) ''prod1'' = None
   \<and> consumers (sfu (fst (handle consuming ''p1'' (CloseProducer ''prod1'' ''A''))))
     = [(''c1'', \<lparr> c_peerId = ''p1'', c_roomId = ''A'', c_producerId = ''prod2'' \<rparr>)]"
proof -
  have h: "map_of (producers (sfu consuming)) ''prod1''
     = Some \<lparr> p_peerId = ''p1'', p_roomId = ''A'', p_kind = ''video'' \<rparr>"
    by (simp add: consuming_value)
  have d: "distinct (map fst (consumers (sfu consuming)))"
    by (simp add: consuming_value)
  have f: "filter (\<lambda>(consumerId, consumerInfo). c_producerId consumerInfo \<noteq> ''prod1'') (consumers (sfu consuming))
     = [(''c1'', \<lparr> c_peerId = ''p1'', c_roomId = ''A'', c_producerId = ''prod2'' \<rparr>)]"
    by (simp add: consuming_value)
  from close_producer_closes_its_consumers [OF h, of "''p1''" "''A''"] h d f
  show ?thesis by simp
qed

subsection \<open>C10: closing a producer that does not exist\<close>

text \<open>
  C10. When the producer id of a \<open>close-producer\<close> event is not in the producer table,
  \<open>closeProducer\<close> returns with the registries unchanged, the state of the server stays
  as it was, and the handler still sends \<open>producer-closed {peerId, producerId}\<close> to every
  other socket of the room and then replies \<open>producer-closed {producerId}\<close> to the
  sender.
\<close>

theorem close_absent_producer_replies_closed:
  assumes "map_of (producers (sfu s)) producerId = None"
  shows "closeProducer (sfu s) producerId = sfu s
    \<and> handle s peerId (CloseProducer producerId roomId)
      = (s, map (\<lambda>receiver. (receiver, ProducerClosed (Some peerId) producerId))
              (filter (\<lambda>receiver. receiver \<noteq> peerId) (room_members (joined s) (video_room roomId)))
            @ [(peerId, ProducerClosed None producerId)])"
  using assms
  by (simp add: on_close_producer_def Let_def closeProducer_absent socket_to_emit_def socket_emit_def)

text \<open>C10 at a concrete state: \<open>p1\<close> closes a producer that \<open>both_producing\<close> does not have.\<close>

theorem close_absent_producer_witness:
  "map_of (producers (sfu both_producing)) ''ghost'' = None
   \<and> handle both_producing ''p1'' (CloseProducer ''ghost'' ''A'')
     = (both_producing, [(''p2'', ProducerClosed (Some ''p1'') ''ghost''), (''p1'', ProducerClosed None ''ghost'')])"
proof -
  have h: "map_of (producers (sfu both_producing)) ''ghost'' = None"
    by (simp add: both_producing_value)
  have r: "filter (\<lambda>receiver. receiver \<noteq> ''p1'') (room_members (joined both_producing) (video_room ''A'')) = [''p2'']"
    by (simp add: both_producing_value room_members_def video_room_def)
  from close_absent_producer_replies_closed [OF h, of "''p1''" "''A''"] h r
  show ?thesis by simp
qed

end
